theory Spec2Isabelle
  imports Complex_Main
begin

section \<open>Python strings\<close>

text \<open>
  A Python \<^verbatim>\<open>str\<close> is a sequence of code points. It is modelled as a \<^typ>\<open>string\<close> whose
  characters are the code points U+0000 to U+00FF, so \<^const>\<open>length\<close> is Python's
  \<^verbatim>\<open>len\<close>. Every literal of \<^verbatim>\<open>scripts/ocr_integration.py\<close> lies in that
  range (the accented Portuguese letters are written by their code point, for example
  \<^term>\<open>CHR 0xCD\<close> for the capital I with acute accent); text with code points above
  U+00FF is outside the model.
\<close>

definition is_space :: "char \<Rightarrow> bool" where
  \<comment> \<open>\<^verbatim>\<open>str.isspace\<close> on one code point: TAB, LF, VT, FF, CR, FS, GS, RS, US, space, NEL, NBSP.\<close>
  "is_space c =
     (c \<in> {CHR 0x09, CHR 0x0A, CHR 0x0B, CHR 0x0C, CHR 0x0D,
            CHR 0x1C, CHR 0x1D, CHR 0x1E, CHR 0x1F, CHR 0x20, CHR 0x85, CHR 0xA0})"

definition py_strip :: "string \<Rightarrow> string" where
  \<comment> \<open>\<^verbatim>\<open>s.strip()\<close>: leading and trailing whitespace removed.\<close>
  "py_strip s = rev (dropWhile is_space (rev (dropWhile is_space s)))"

definition lower_char :: "char \<Rightarrow> char" where
  \<comment> \<open>\<^verbatim>\<open>str.lower\<close> on one code point: A-Z, and U+00C0 to U+00DE except the
      multiplication sign U+00D7, move up by 32.\<close>
  "lower_char c =
     (let n = (of_char c :: nat)
      in if (65 \<le> n \<and> n \<le> 90) \<or> (192 \<le> n \<and> n \<le> 222 \<and> n \<noteq> 215)
         then char_of (n + 32) else c)"

definition py_lower :: "string \<Rightarrow> string" where
  "py_lower s = map lower_char s"

fun startswith :: "string \<Rightarrow> string \<Rightarrow> bool" where
  \<comment> \<open>\<^verbatim>\<open>s.startswith(p)\<close>, the prefix first.\<close>
  "startswith [] s = True"
| "startswith (p # ps) [] = False"
| "startswith (p # ps) (c # cs) = (p = c \<and> startswith ps cs)"

definition endswith :: "string \<Rightarrow> string \<Rightarrow> bool" where
  "endswith p s = startswith (rev p) (rev s)"

fun str_contains :: "string \<Rightarrow> string \<Rightarrow> bool" where
  \<comment> \<open>\<^verbatim>\<open>k in s\<close> for strings: \<open>k\<close> occurs in \<open>s\<close> as a contiguous run.\<close>
  "str_contains k [] = (k = [])"
| "str_contains k (c # cs) = (startswith k (c # cs) \<or> str_contains k cs)"

definition digit_char :: "nat \<Rightarrow> char" where
  "digit_char d = char_of (48 + d)"

function str_of_nat :: "nat \<Rightarrow> string" where
  \<comment> \<open>\<^verbatim>\<open>str(n)\<close> for a non-negative integer: its decimal digits.\<close>
  "str_of_nat n =
     (if n < 10 then [digit_char n] else str_of_nat (n div 10) @ [digit_char (n mod 10)])"
  by pat_completeness auto
termination
  by (relation "measure id") auto

declare str_of_nat.simps [simp del]

definition str_of_int :: "int \<Rightarrow> string" where
  \<comment> \<open>\<^verbatim>\<open>str(i)\<close> for an integer.\<close>
  "str_of_int i = (if i < 0 then ''-'' @ str_of_nat (nat (- i)) else str_of_nat (nat i))"

section \<open>Python floats\<close>

text \<open>
  A Python \<^verbatim>\<open>float\<close> is an IEEE 754 binary64 number. It is modelled by the rational
  number it denotes, and an arithmetic operation gives the exact result rounded to the
  nearest binary64 number, a tie going to the even significand. A non-zero binary64
  number of the normal range is \<open>m * 2 ^ e\<close> with \<open>2 ^ 52 \<le> \<bar>m\<bar> < 2 ^ 53\<close>; the rounding
  below is that of the normal range (magnitudes from \<open>2 ^ -1022\<close> up to \<open>2 ^ 1024\<close>), which
  holds every number the modelled code computes.
\<close>

definition pow2 :: "int \<Rightarrow> rat" where
  "pow2 e = (if 0 \<le> e then 2 ^ nat e else 1 / 2 ^ nat (- e))"

text \<open>
  The exponent of a positive number: \<open>q\<close> is halved while it is \<open>2 ^ 53\<close> or more and
  doubled while it is below \<open>2 ^ 52\<close>, and the steps are counted. Called with the count 0
  it gives the \<open>e\<close> with \<open>2 ^ 52 \<le> q / 2 ^ e < 2 ^ 53\<close>.
\<close>

function norm_exponent :: "rat \<Rightarrow> int \<Rightarrow> int" where
  "norm_exponent q e =
     (if q \<le> 0 then e
      else if 2 ^ 53 \<le> q then norm_exponent (q / 2) (e + 1)
      else if q < 2 ^ 52 then norm_exponent (q * 2) (e - 1)
      else e)"
  by pat_completeness auto
termination
proof (relation "measure (\<lambda>(q, e). if 2 ^ 53 \<le> q then nat \<lfloor>q / 2 ^ 52\<rfloor>
                                  else if 0 < q \<and> q < 2 ^ 52 then nat \<lfloor>2 ^ 52 / q\<rfloor>
                                  else 0)", goal_cases)
  case 1
  show ?case by simp
next
  case (2 q e)
  then have q: "2 ^ 53 \<le> q" by simp
  have halve: "\<lfloor>x / 2\<rfloor> < \<lfloor>x\<rfloor>" if "1 \<le> x" for x :: rat
  proof -
    have "x < of_int \<lfloor>x\<rfloor> + 1" by linarith
    moreover have "(1::rat) \<le> of_int \<lfloor>x\<rfloor>" using that by (simp add: le_floor_iff)
    ultimately have "x / 2 < of_int \<lfloor>x\<rfloor>" by linarith
    then show ?thesis by (simp add: floor_less_iff)
  qed
  have x: "(1::rat) \<le> q / 2 ^ 52" using q by simp
  have p: "2 \<le> \<lfloor>q / 2 ^ 52\<rfloor>" using q by (simp add: le_floor_iff)
  show ?case
  proof (cases "2 ^ 53 \<le> q / 2")
    case True
    have "q / 2 / 2 ^ 52 = q / 2 ^ 52 / 2" by simp
    then show ?thesis using True q halve[OF x] p by simp
  next
    case False
    have "\<not> (q / 2 < 2 ^ 52)" using q by simp
    then show ?thesis using False q p by simp
  qed
next
  case (3 q e)
  then have q: "0 < q" "q < 2 ^ 52" "\<not> 2 ^ 53 \<le> q" by simp_all
  have halve: "\<lfloor>x / 2\<rfloor> < \<lfloor>x\<rfloor>" if "1 \<le> x" for x :: rat
  proof -
    have "x < of_int \<lfloor>x\<rfloor> + 1" by linarith
    moreover have "(1::rat) \<le> of_int \<lfloor>x\<rfloor>" using that by (simp add: le_floor_iff)
    ultimately have "x / 2 < of_int \<lfloor>x\<rfloor>" by linarith
    then show ?thesis by (simp add: floor_less_iff)
  qed
  have x: "(1::rat) \<le> 2 ^ 52 / q" using q by simp
  have p: "1 \<le> \<lfloor>2 ^ 52 / q\<rfloor>" using x by (simp add: le_floor_iff)
  have n: "\<not> 2 ^ 53 \<le> q * 2" using q by simp
  show ?case
  proof (cases "q * 2 < 2 ^ 52")
    case True
    have "2 ^ 52 / (q * 2) = 2 ^ 52 / q / 2" by simp
    then show ?thesis using True q n halve[OF x] p by simp
  next
    case False
    then show ?thesis using q n p by simp
  qed
qed

declare norm_exponent.simps [simp del]

definition round_half_even :: "rat \<Rightarrow> int" where
  \<comment> \<open>The nearest integer, a tie going to the even one.\<close>
  "round_half_even r =
     (let f = \<lfloor>r\<rfloor>; d = r - of_int f
      in if d < 1 / 2 then f
         else if 1 / 2 < d then f + 1
         else if even f then f else f + 1)"

definition round_double :: "rat \<Rightarrow> rat" where
  \<comment> \<open>The binary64 number nearest to \<open>q\<close>.\<close>
  "round_double q =
     (if q = 0 then 0
      else (let e = norm_exponent \<bar>q\<bar> 0
            in of_int (round_half_even (q / pow2 e)) * pow2 e))"

definition float_div :: "rat \<Rightarrow> rat \<Rightarrow> rat" where
  \<comment> \<open>\<^verbatim>\<open>a / b\<close> for \<open>b \<noteq> 0\<close> (true division of two integers is correctly rounded too).\<close>
  "float_div a b = round_double (a / b)"

definition float_mul :: "rat \<Rightarrow> rat \<Rightarrow> rat" where
  \<comment> \<open>\<^verbatim>\<open>a * b\<close>\<close>
  "float_mul a b = round_double (a * b)"

section \<open>Retry configuration: \<^verbatim>\<open>OCRRetryConfig\<close>\<close>

datatype RetryStrategy = EXPONENTIAL_BACKOFF | FIXED_DELAY | IMMEDIATE

text \<open>
  The fields of \<^verbatim>\<open>OCRRetryConfig\<close> that the code reads. \<^verbatim>\<open>max_retries\<close> is the
  integer read from the environment, which may be negative; the two delays are floats,
  in seconds. (The attribute \<^verbatim>\<open>retryable_errors\<close> is assigned in the constructor and
  read nowhere.)
\<close>

record OCRRetryConfig =
  max_retries :: int
  base_delay :: rat
  max_delay :: rat
  strategy :: RetryStrategy

definition default_config :: OCRRetryConfig where
  \<comment> \<open>The values taken when the environment variables are not set.\<close>
  "default_config =
     \<lparr>max_retries = 3, base_delay = 2, max_delay = 30, strategy = EXPONENTIAL_BACKOFF\<rparr>"

definition retryable_keywords :: "string list" where
  "retryable_keywords =
     [''timeout'', ''connection'', ''network'', ''temporary'',
      ''rate limit'', ''server error'', ''5'', ''unavailable'']"

definition should_retry :: "OCRRetryConfig \<Rightarrow> string \<Rightarrow> nat \<Rightarrow> bool" where
  \<comment> \<open>The second argument is \<^verbatim>\<open>str(error)\<close>, the message of the exception.\<close>
  "should_retry cfg error attempt =
     (if int attempt \<ge> max_retries cfg then False
      else (let error_str = py_lower error
            in list_ex (\<lambda>keyword. str_contains keyword error_str) retryable_keywords))"

definition get_delay :: "OCRRetryConfig \<Rightarrow> nat \<Rightarrow> rat" where
  \<comment> \<open>\<^verbatim>\<open>2 ** attempt\<close> is an integer; multiplied by a float it is converted without error
      (the attempt numbers stay far below 1024).\<close>
  "get_delay cfg attempt =
     (case strategy cfg of
        IMMEDIATE \<Rightarrow> 0
      | FIXED_DELAY \<Rightarrow> base_delay cfg
      | EXPONENTIAL_BACKOFF \<Rightarrow> min (float_mul (base_delay cfg) (2 ^ attempt)) (max_delay cfg))"

section \<open>Result dictionaries\<close>

text \<open>
  A parsed record is a Python dict from field names to a string or \<^verbatim>\<open>None\<close>; it is an
  association list in insertion order. \<^verbatim>\<open>d.get(k)\<close> gives \<^verbatim>\<open>None\<close> both for a
  missing key and for a key stored with \<^verbatim>\<open>None\<close>.
\<close>

type_synonym parsed_record = "(string \<times> string option) list"

definition rec_get :: "parsed_record \<Rightarrow> string \<Rightarrow> string option" where
  "rec_get d k = (case map_of d k of None \<Rightarrow> None | Some v \<Rightarrow> v)"

fun dict_set :: "(string \<times> 'v) list \<Rightarrow> string \<Rightarrow> 'v \<Rightarrow> (string \<times> 'v) list" where
  \<comment> \<open>\<^verbatim>\<open>d[k] = v\<close>: an existing key keeps its position, a new key goes last.\<close>
  "dict_set [] k v = [(k, v)]"
| "dict_set ((k', v') # d) k v = (if k' = k then (k, v) # d else (k', v') # dict_set d k v)"

text \<open>
  The value under \<^verbatim>\<open>'parsed_data'\<close> is either such a record or, for a storefront
  photo, the fixed marker
  \<^verbatim>\<open>{'stored_for_webhook': True, 'image_validated': True}\<close>, whose two keys are
  never looked up as fields.
\<close>

datatype pdata = Fields parsed_record | Facade_marker

definition parsed_get :: "pdata \<Rightarrow> string \<Rightarrow> string option" where
  "parsed_get p k = (case p of Fields d \<Rightarrow> rec_get d k | Facade_marker \<Rightarrow> None)"

record quality_metrics =
  score :: rat
  valid_fields :: nat
  total_required :: nat
  found_fields :: "string list"
  missing_required :: "string list"
  is_acceptable :: bool
  needs_retry :: bool

text \<open>
  The dict returned for one document. An optional field is \<^term>\<open>None\<close> when the key
  is absent (or, for \<^verbatim>\<open>'raw_text'\<close>, stored as \<^verbatim>\<open>None\<close>); a field whose name would
  clash with a parameter of the source carries the suffix \<open>_key\<close>. The key
  \<^verbatim>\<open>'processed_at'\<close> (the wall-clock time of the call) is left out.
\<close>

record ocr_result =
  success :: bool
  document_type_key :: "string option"
  raw_text_key :: "string option"
  parsed_data :: "pdata option"
  error :: "string option"
  note_text :: "string option"
  quality_metrics :: "quality_metrics option"
  retry_reason :: "string option"
  retry_attempts :: "int option"
  last_error :: "string option"

definition empty_result :: ocr_result where
  "empty_result =
     \<lparr>success = False, document_type_key = None, raw_text_key = None, parsed_data = None,
      error = None,
      note_text = None, quality_metrics = None, retry_reason = None, retry_attempts = None,
      last_error = None\<rparr>"

section \<open>The retry decorator: \<^verbatim>\<open>retry_ocr\<close>\<close>

text \<open>
  One call of the wrapped coroutine either raises an exception, kept by its message
  \<^verbatim>\<open>str(e)\<close>, or returns a result dict. The wrapped function is called with the same
  arguments at every attempt and what it does depends on the outside world, so it is given
  as the outcome of each call, indexed by the attempt number.
\<close>

datatype outcome = Raised string | Returned ocr_result

text \<open>What a run of the wrapper yields: the dict returned to the caller, the number of
  calls made to the wrapped function, and the delays slept, in order.\<close>

record run =
  returned :: ocr_result
  calls :: nat
  sleeps :: "rat list"

definition str_exception :: "string option \<Rightarrow> string" where
  \<comment> \<open>\<^verbatim>\<open>str(last_exception)\<close>; the variable starts as \<^verbatim>\<open>None\<close>.\<close>
  "str_exception e = (case e of None \<Rightarrow> ''None'' | Some m \<Rightarrow> m)"

definition all_failed :: "OCRRetryConfig \<Rightarrow> string option \<Rightarrow> ocr_result" where
  \<comment> \<open>The dict built after the loop.\<close>
  "all_failed cfg last_exception =
     empty_result
       \<lparr>success := False,
        error := Some (''Falha ap'' @ [CHR 0xF3] @ ''s '' @ str_of_int (max_retries cfg + 1)
                       @ '' tentativas: '' @ str_exception last_exception),
        retry_attempts := Some (max_retries cfg + 1),
        last_error := Some (str_exception last_exception)\<rparr>"

text \<open>
  The \<^verbatim>\<open>for attempt in range(max_retries + 1)\<close> loop, over the attempt numbers still to
  run (none at all when \<^verbatim>\<open>max_retries\<close> is negative). \<open>last_exc\<close> is \<^verbatim>\<open>last_exception\<close>, \<open>sl\<close> the delays slept so far.
\<close>

fun retry_loop ::
  "OCRRetryConfig \<Rightarrow> (nat \<Rightarrow> outcome) \<Rightarrow> nat list \<Rightarrow> string option \<Rightarrow> nat \<Rightarrow> rat list \<Rightarrow> run"
where
  "retry_loop cfg func [] last_exc n sl = \<lparr>returned = all_failed cfg last_exc, calls = n, sleeps = sl\<rparr>"
| "retry_loop cfg func (attempt # rest) last_exc n sl =
     (case func attempt of
        Returned result \<Rightarrow>
          (if \<not> success result then
             (let error_msg = (case error result of None \<Rightarrow> [] | Some m \<Rightarrow> m)
              in if should_retry cfg error_msg attempt then
                   (if int attempt < max_retries cfg
                    then retry_loop cfg func rest (Some error_msg) (Suc n)
                           (sl @ [get_delay cfg attempt])
                    else \<lparr>returned = result, calls = Suc n, sleeps = sl\<rparr>)
                 else \<lparr>returned = result, calls = Suc n, sleeps = sl\<rparr>)
           else \<lparr>returned = result, calls = Suc n, sleeps = sl\<rparr>)
      | Raised e \<Rightarrow>
          (if \<not> should_retry cfg e attempt
           then \<lparr>returned = all_failed cfg (Some e), calls = Suc n, sleeps = sl\<rparr>
           else if int attempt < max_retries cfg
                then retry_loop cfg func rest (Some e) (Suc n) (sl @ [get_delay cfg attempt])
                else retry_loop cfg func rest (Some e) (Suc n) sl))"

definition retry_ocr :: "OCRRetryConfig \<Rightarrow> (nat \<Rightarrow> outcome) \<Rightarrow> run" where
  "retry_ocr cfg func = retry_loop cfg func [0..<nat (max_retries cfg + 1)] None 0 []"

section \<open>The quality evaluator: \<^verbatim>\<open>validate_ocr_result\<close>\<close>

definition quality_checks :: "string \<Rightarrow> (string list \<times> nat) option" where
  \<comment> \<open>The table \<^verbatim>\<open>quality_checks\<close>: \<^verbatim>\<open>required_fields\<close> and \<^verbatim>\<open>min_fields\<close> of a
      document type, \<^term>\<open>None\<close> when the type is not a key of the table.\<close>
  "quality_checks document_type =
     (if document_type = ''rg''
        then Some ([''nome_completo'', ''data_nascimento'', ''cpf''], 2)
      else if document_type = ''cnpj''
        then Some ([''empresa'', ''cnpj'', ''nome_comprovante''], 2)
      else if document_type = ''address''
        then Some ([''cep'', ''complemento''], 1)
      else None)"

definition reserved_markers :: "string list" where
  \<comment> \<open>The list a field value is compared with: the marker for illegible text (I with acute
      accent is U+00CD), the marker for review, and the word \<^verbatim>\<open>null\<close>.\<close>
  "reserved_markers = [''[ILEG'' @ [CHR 0xCD] @ ''VEL]'', ''[REVISAR]'', ''null'']"

definition field_is_valid :: "string option \<Rightarrow> bool" where
  \<comment> \<open>\<^verbatim>\<open>value and str(value).strip() and str(value) not in [...]\<close>\<close>
  "field_is_valid v =
     (case v of
        None \<Rightarrow> False
      | Some s \<Rightarrow> s \<noteq> [] \<and> py_strip s \<noteq> [] \<and> s \<notin> set reserved_markers)"

text \<open>The loop over \<^verbatim>\<open>required_fields\<close>, with its three accumulators
  \<^verbatim>\<open>valid_fields\<close>, \<^verbatim>\<open>found_fields\<close> and \<^verbatim>\<open>missing_required\<close>.\<close>

fun count_fields ::
  "pdata \<Rightarrow> string list \<Rightarrow> nat \<times> string list \<times> string list \<Rightarrow> nat \<times> string list \<times> string list"
where
  "count_fields pd [] acc = acc"
| "count_fields pd (field # rest) (valid, found, missing) =
     (if field_is_valid (parsed_get pd field)
      then count_fields pd rest (valid + 1, found @ [field], missing)
      else count_fields pd rest (valid, found, missing @ [field]))"

definition rejection_message :: "nat \<Rightarrow> nat \<Rightarrow> nat \<Rightarrow> string" where
  \<comment> \<open>The f-string stored under \<^verbatim>\<open>'error'\<close> on rejection (i with acute accent is U+00ED).\<close>
  "rejection_message valid n_required min_fields =
     ''Apenas '' @ str_of_nat valid @ ''/'' @ str_of_nat n_required
       @ '' campos essenciais extra'' @ [CHR 0xED] @ ''dos. M'' @ [CHR 0xED] @ ''nimo: ''
       @ str_of_nat min_fields"

text \<open>
  The score is \<^verbatim>\<open>(valid_fields / len(required_fields)) * 100\<close>: a float division, then
  a float multiplication. No entry of the table has an empty \<^verbatim>\<open>required_fields\<close>, so
  the division is never by zero.
\<close>

definition validate_ocr_result :: "ocr_result \<Rightarrow> string \<Rightarrow> ocr_result" where
  "validate_ocr_result result document_type =
     (if \<not> success result then result
      else
        (case quality_checks document_type of
           None \<Rightarrow> result
         | Some (required_fields, min_fields) \<Rightarrow>
             (let pd = (case parsed_data result of None \<Rightarrow> Fields [] | Some p \<Rightarrow> p);
                  (valid, found, missing) = count_fields pd required_fields (0, [], []);
                  quality_score =
                    float_mul (float_div (of_nat valid) (of_nat (length required_fields))) 100;
                  acceptable = (valid \<ge> min_fields);
                  result1 = result
                    \<lparr>quality_metrics := Some
                       \<lparr>score = quality_score,
                        valid_fields = valid,
                        total_required = length required_fields,
                        found_fields = found,
                        missing_required = missing,
                        is_acceptable = acceptable,
                        needs_retry = (\<not> acceptable)\<rparr>\<rparr>
              in if \<not> acceptable
                 then result1
                   \<lparr>success := False,
                    error := Some (rejection_message valid (length required_fields) min_fields),
                    retry_reason := Some ''insufficient_essential_fields''\<rparr>
                 else result1)))"

section \<open>The response parser\<close>

text \<open>
  The parser calls the standard library: \<^verbatim>\<open>json.loads\<close>, \<^verbatim>\<open>re.findall\<close>,
  \<^verbatim>\<open>re.search\<close>, \<^verbatim>\<open>re.match\<close>, and it iterates over a \<^verbatim>\<open>set\<close> of strings.
  These are not code of the repository; the model takes them as parameters, collected in a
  record, and every theorem holds for whatever they compute.

  A regular expression of the source is named by a constructor; the literal is given
  beside the list that holds it. A search returns \<^verbatim>\<open>match.group(1)\<close> (each pattern has
  exactly one group, which takes part in every match), or \<^term>\<open>None\<close> for no match.
  \<^verbatim>\<open>json.loads\<close> is only applied to text that begins with an opening brace, so it
  returns a dict or raises; raising is \<^term>\<open>None\<close>.
\<close>

datatype re_flag = IGNORECASE | MULTILINE | DOTALL

datatype pattern =
    Json_pattern nat
  | Nome_pattern nat
  | Data_pattern nat
  | Cpf_pattern nat
  | Cnpj_pattern nat
  | Empresa_pattern nat
  | Cep_pattern nat
  | Complemento_pattern nat
  | Company_line_pattern

text \<open>
  A value of a decoded JSON object. A float, an array or a nested object is kept by the
  two things the code observes of it: its truth value and its \<^verbatim>\<open>str()\<close>.
\<close>

datatype jval = JNull | JStr string | JBool bool | JInt int | JOther bool string

record pylib =
  json_loads :: "string \<Rightarrow> (string \<times> jval) list option"
  re_findall :: "pattern \<Rightarrow> re_flag list \<Rightarrow> string \<Rightarrow> string list"
  re_search :: "pattern \<Rightarrow> re_flag list \<Rightarrow> string \<Rightarrow> string option"
  re_match :: "pattern \<Rightarrow> string \<Rightarrow> bool"
  set_iter :: "string list \<Rightarrow> string list"

subsection \<open>\<^verbatim>\<open>_extract_json_from_text\<close>\<close>

definition json_patterns :: "pattern list" where
  \<comment> \<open>In order: a fenced block tagged json holding a brace group; any fenced block holding a
      brace group; a brace group with at most one level of nested braces.\<close>
  "json_patterns = [Json_pattern 0, Json_pattern 1, Json_pattern 2]"

fun try_matches :: "pylib \<Rightarrow> string list \<Rightarrow> (string \<times> jval) list option" where
  \<comment> \<open>\<^verbatim>\<open>for match in matches: try: return json.loads(match.strip()) except: continue\<close>\<close>
  "try_matches L [] = None"
| "try_matches L (m # ms) =
     (case json_loads L (py_strip m) of Some d \<Rightarrow> Some d | None \<Rightarrow> try_matches L ms)"

fun try_patterns :: "pylib \<Rightarrow> pattern list \<Rightarrow> string \<Rightarrow> (string \<times> jval) list option" where
  "try_patterns L [] text = None"
| "try_patterns L (p # ps) text =
     (case try_matches L (re_findall L p [DOTALL, IGNORECASE] text) of
        Some d \<Rightarrow> Some d
      | None \<Rightarrow> try_patterns L ps text)"

text \<open>
  In the first branch \<^verbatim>\<open>json.loads\<close> is called outside any inner \<^verbatim>\<open>try\<close>: when it
  raises, the \<^verbatim>\<open>except Exception\<close> around the whole body returns \<^verbatim>\<open>None\<close>.
\<close>

definition extract_json_from_text :: "pylib \<Rightarrow> string \<Rightarrow> (string \<times> jval) list option" where
  "extract_json_from_text L text =
     (if startswith ''{'' (py_strip text) \<and> endswith ''}'' (py_strip text)
      then (case json_loads L (py_strip text) of Some d \<Rightarrow> Some d | None \<Rightarrow> None)
      else try_patterns L json_patterns text)"

subsection \<open>String helpers of the pattern fallback\<close>

fun split_ws :: "string \<Rightarrow> string \<Rightarrow> string list" where
  \<comment> \<open>\<^verbatim>\<open>s.split()\<close>: the maximal runs of non-whitespace; the second argument is the
      run being read, reversed.\<close>
  "split_ws [] w = (if w = [] then [] else [rev w])"
| "split_ws (c # cs) w =
     (if is_space c then (if w = [] then split_ws cs [] else rev w # split_ws cs [])
      else split_ws cs (c # w))"

definition py_split :: "string \<Rightarrow> string list" where
  "py_split s = split_ws s []"

fun split_on :: "char \<Rightarrow> string \<Rightarrow> string list" where
  \<comment> \<open>\<^verbatim>\<open>s.split(c)\<close> for a one-character separator: empty pieces are kept.\<close>
  "split_on sep [] = [[]]"
| "split_on sep (c # cs) =
     (if c = sep then [] # split_on sep cs
      else (case split_on sep cs of [] \<Rightarrow> [[c]] | w # ws \<Rightarrow> (c # w) # ws))"

definition digits_only :: "string \<Rightarrow> string" where
  \<comment> \<open>\<^verbatim>\<open>re.sub(r'[^\d]', '', s)\<close>: every character that is not a decimal digit removed.\<close>
  "digits_only s = filter (\<lambda>c. c \<in> set ''0123456789'') s"

definition upper_char :: "char \<Rightarrow> string" where
  \<comment> \<open>\<^verbatim>\<open>str.upper\<close> on one code point: a-z, and U+00E0 to U+00FE except the division sign
      U+00F7, move down by 32; sharp s (U+00DF) becomes SS. The images of U+00B5 and U+00FF
      lie above U+00FF and are no ASCII letters; the two code points are left as they are.\<close>
  "upper_char c =
     (let n = (of_char c :: nat)
      in if (97 \<le> n \<and> n \<le> 122) \<or> (224 \<le> n \<and> n \<le> 254 \<and> n \<noteq> 247)
         then [char_of (n - 32)]
         else if n = 223 then ''SS'' else [c])"

definition py_upper :: "string \<Rightarrow> string" where
  "py_upper s = concat (map upper_char s)"

fun join :: "string \<Rightarrow> string list \<Rightarrow> string" where
  \<comment> \<open>\<^verbatim>\<open>sep.join(xs)\<close>\<close>
  "join sep [] = []"
| "join sep [x] = x"
| "join sep (x # y # ys) = x @ sep @ join sep (y # ys)"

subsection \<open>\<^verbatim>\<open>_extract_rg_fields\<close>\<close>

text \<open>
  \<^verbatim>\<open>nome_patterns\<close>: the label "nome" then a colon or whitespace then ten or more
  letters and blanks; the same after "nome completo"; a whole line of fifteen or more
  letters and blanks. \<^verbatim>\<open>data_patterns\<close>: a date d/m/yyyy with separators slash, dash or
  dot; the same after "nascimento"; the same after "data". \<^verbatim>\<open>cpf_patterns\<close>: 3+3+3+2
  digits with optional dots and dash; the same after "cpf".
\<close>

definition nome_patterns :: "pattern list" where
  "nome_patterns = [Nome_pattern 0, Nome_pattern 1, Nome_pattern 2]"

definition data_patterns :: "pattern list" where
  "data_patterns = [Data_pattern 0, Data_pattern 1, Data_pattern 2]"

definition cpf_patterns :: "pattern list" where
  "cpf_patterns = [Cpf_pattern 0, Cpf_pattern 1]"

fun nome_loop :: "pylib \<Rightarrow> string \<Rightarrow> pattern list \<Rightarrow> parsed_record \<Rightarrow> parsed_record" where
  "nome_loop L text [] result = result"
| "nome_loop L text (p # ps) result =
     (case re_search L p [IGNORECASE, MULTILINE] text of
        None \<Rightarrow> nome_loop L text ps result
      | Some g \<Rightarrow>
          (let nome = py_strip g
           in if length (py_split nome) \<ge> 2
              then dict_set result ''nome_completo'' (Some nome)
              else nome_loop L text ps result))"

fun data_loop :: "pylib \<Rightarrow> string \<Rightarrow> pattern list \<Rightarrow> parsed_record \<Rightarrow> parsed_record" where
  "data_loop L text [] result = result"
| "data_loop L text (p # ps) result =
     (case re_search L p [IGNORECASE] text of
        None \<Rightarrow> data_loop L text ps result
      | Some g \<Rightarrow> dict_set result ''data_nascimento'' (Some g))"

text \<open>The loops for CPF, CNPJ and CEP differ in the field and in the number of digits
  required only.\<close>

fun digits_loop ::
  "pylib \<Rightarrow> string \<Rightarrow> string \<Rightarrow> nat \<Rightarrow> pattern list \<Rightarrow> parsed_record \<Rightarrow> parsed_record"
where
  "digits_loop L text field n [] result = result"
| "digits_loop L text field n (p # ps) result =
     (case re_search L p [IGNORECASE] text of
        None \<Rightarrow> digits_loop L text field n ps result
      | Some g \<Rightarrow>
          (if length (digits_only g) = n
           then dict_set result field (Some g)
           else digits_loop L text field n ps result))"

definition extract_rg_fields :: "pylib \<Rightarrow> string \<Rightarrow> parsed_record" where
  "extract_rg_fields L text =
     (let result = [(''nome_completo'', None), (''data_nascimento'', None), (''cpf'', None)];
          result = nome_loop L text nome_patterns result;
          result = data_loop L text data_patterns result
      in digits_loop L text ''cpf'' 11 cpf_patterns result)"

subsection \<open>\<^verbatim>\<open>_extract_cnpj_fields\<close>\<close>

text \<open>
  \<^verbatim>\<open>cnpj_patterns\<close>: 2+3+3+4+2 digits with optional dots, slash and dash; the same
  after "cnpj". \<^verbatim>\<open>empresa_patterns\<close>: five or more letters, blanks, dashes and dots
  after "razao social" (a with tilde), after "nome fantasia", after "empresa"; ten or more of them at
  the start of a line before LTDA; the same before S.A. The last pattern, matched
  against a stripped line with no flag, accepts a line made of capital letters, blanks,
  dashes and dots only.
\<close>

definition cnpj_patterns :: "pattern list" where
  "cnpj_patterns = [Cnpj_pattern 0, Cnpj_pattern 1]"

definition empresa_patterns :: "pattern list" where
  "empresa_patterns =
     [Empresa_pattern 0, Empresa_pattern 1, Empresa_pattern 2, Empresa_pattern 3,
      Empresa_pattern 4]"

definition py_truthy :: "string option \<Rightarrow> bool" where
  \<comment> \<open>The truth value of a string or \<^verbatim>\<open>None\<close>.\<close>
  "py_truthy v = (case v of None \<Rightarrow> False | Some s \<Rightarrow> s \<noteq> [])"

fun empresa_loop :: "pylib \<Rightarrow> string \<Rightarrow> pattern list \<Rightarrow> parsed_record \<Rightarrow> parsed_record" where
  "empresa_loop L text [] result = result"
| "empresa_loop L text (p # ps) result =
     (case re_search L p [IGNORECASE, MULTILINE] text of
        None \<Rightarrow> empresa_loop L text ps result
      | Some g \<Rightarrow>
          (let empresa = py_strip g
           in if length empresa \<ge> 5
              then (let result = dict_set result ''empresa'' (Some empresa)
                    in if \<not> py_truthy (rec_get result ''nome_comprovante'')
                       then dict_set result ''nome_comprovante'' (Some empresa)
                       else result)
              else empresa_loop L text ps result))"

definition company_words :: "string list" where
  "company_words = [''LTDA'', ''S.A'', ''EIRELI'', ''ME'', ''EPP'']"

fun line_loop :: "pylib \<Rightarrow> string list \<Rightarrow> parsed_record \<Rightarrow> parsed_record" where
  "line_loop L [] result = result"
| "line_loop L (l # ls) result =
     (let line = py_strip l
      in if length line \<ge> 10 \<and> re_match L Company_line_pattern line
            \<and> list_ex (\<lambda>word. str_contains word (py_upper line)) company_words
         then dict_set result ''nome_comprovante'' (Some line)
         else line_loop L ls result)"

definition extract_cnpj_fields :: "pylib \<Rightarrow> string \<Rightarrow> parsed_record" where
  "extract_cnpj_fields L text =
     (let result = [(''empresa'', None), (''cnpj'', None), (''nome_comprovante'', None)];
          result = digits_loop L text ''cnpj'' 14 cnpj_patterns result;
          result = empresa_loop L text empresa_patterns result
      in if \<not> py_truthy (rec_get result ''nome_comprovante'')
         then line_loop L (split_on (CHR 0x0A) text) result
         else result)"

subsection \<open>\<^verbatim>\<open>_extract_address_fields\<close>\<close>

text \<open>
  \<^verbatim>\<open>cep_patterns\<close>: 5+3 digits with an optional dash or dot; the same after "cep".
  \<^verbatim>\<open>complemento_patterns\<close>: a run of letters, digits, blanks and dashes after, in
  order, "quadra", "qd", "lote", "lt", "casa", "apartamento", "apt" or "apto", "bloco",
  "complemento". The set built from the complements found is iterated in an order that
  Python does not fix; \<^const>\<open>set_iter\<close> stands for it.
\<close>

definition cep_patterns :: "pattern list" where
  "cep_patterns = [Cep_pattern 0, Cep_pattern 1]"

definition complemento_patterns :: "pattern list" where
  "complemento_patterns = map Complemento_pattern [0..<9]"

definition find_complementos :: "pylib \<Rightarrow> string \<Rightarrow> string list" where
  "find_complementos L text =
     concat (map (\<lambda>p. filter (\<lambda>comp. comp \<noteq> [] \<and> length comp \<le> 20)
                         (map py_strip (re_findall L p [IGNORECASE] text)))
                 complemento_patterns)"

definition extract_address_fields :: "pylib \<Rightarrow> string \<Rightarrow> parsed_record" where
  "extract_address_fields L text =
     (let result = [(''cep'', None), (''complemento'', None)];
          result = digits_loop L text ''cep'' 8 cep_patterns result;
          complementos = find_complementos L text
      in if complementos \<noteq> []
         then dict_set result ''complemento'' (Some (join '', '' (set_iter L complementos)))
         else result)"

subsection \<open>\<^verbatim>\<open>_extract_with_focused_regex\<close>, \<^verbatim>\<open>_validate_essential_fields\<close>,
  \<^verbatim>\<open>parse_extracted_data\<close>\<close>

definition extract_with_focused_regex :: "pylib \<Rightarrow> string \<Rightarrow> string \<Rightarrow> parsed_record" where
  "extract_with_focused_regex L text document_type =
     (if document_type = ''rg'' then extract_rg_fields L text
      else if document_type = ''cnpj'' then extract_cnpj_fields L text
      else if document_type = ''address'' then extract_address_fields L text
      else [])"

fun jtruthy :: "jval \<Rightarrow> bool" where
  "jtruthy JNull = False"
| "jtruthy (JStr s) = (s \<noteq> [])"
| "jtruthy (JBool b) = b"
| "jtruthy (JInt i) = (i \<noteq> 0)"
| "jtruthy (JOther t s) = t"

fun jstr :: "jval \<Rightarrow> string" where
  \<comment> \<open>\<^verbatim>\<open>str(value)\<close>\<close>
  "jstr JNull = ''None''"
| "jstr (JStr s) = s"
| "jstr (JBool b) = (if b then ''True'' else ''False'')"
| "jstr (JInt i) = str_of_int i"
| "jstr (JOther t s) = s"

definition clean_value :: "jval \<Rightarrow> string option" where
  \<comment> \<open>The body of the loop of \<^verbatim>\<open>_validate_essential_fields\<close>.\<close>
  "clean_value v =
     (if jtruthy v \<and> py_strip (jstr v) \<noteq> []
         \<and> py_lower (py_strip (jstr v)) \<notin> set [''null'', ''none'', []]
      then Some (py_strip (jstr v))
      else None)"

definition validate_essential_fields :: "(string \<times> jval) list \<Rightarrow> string \<Rightarrow> parsed_record" where
  \<comment> \<open>The keys of a dict are distinct, so assigning \<^verbatim>\<open>cleaned_data[key]\<close> item by item
      builds the items in the same order. The document type is used for logging only.\<close>
  "validate_essential_fields data document_type = map (\<lambda>(key, v). (key, clean_value v)) data"

definition of_field :: "string option \<Rightarrow> jval" where
  \<comment> \<open>A value of the pattern fallback, seen as a Python value.\<close>
  "of_field v = (case v of None \<Rightarrow> JNull | Some s \<Rightarrow> JStr s)"

text \<open>
  None of the modelled calls raises, so the \<^verbatim>\<open>except\<close> branch of
  \<^verbatim>\<open>parse_extracted_data\<close> is not reached. An empty dict is falsy: it sends the parser
  to the pattern fallback.
\<close>

definition regex_fallback :: "pylib \<Rightarrow> string \<Rightarrow> string \<Rightarrow> parsed_record" where
  \<comment> \<open>The second strategy of \<^verbatim>\<open>parse_extracted_data\<close>, with its post-processing.\<close>
  "regex_fallback L raw_text document_type =
     (let regex_result = extract_with_focused_regex L raw_text document_type
      in validate_essential_fields (map (\<lambda>(k, v). (k, of_field v)) regex_result) document_type)"

definition parse_extracted_data :: "pylib \<Rightarrow> string \<Rightarrow> string \<Rightarrow> parsed_record" where
  "parse_extracted_data L raw_text document_type =
     (case extract_json_from_text L raw_text of
        Some json_result \<Rightarrow>
          (if json_result \<noteq> []
           then validate_essential_fields json_result document_type
           else regex_fallback L raw_text document_type)
      | None \<Rightarrow> regex_fallback L raw_text document_type)"

section \<open>\<^verbatim>\<open>get_document_prompt\<close> and \<^verbatim>\<open>process_document\<close>\<close>

text \<open>
  The three prompt texts of the dict \<^verbatim>\<open>prompts\<close> are sent to the model as they are
  and inspected nowhere; each is named by a constructor.
\<close>

datatype prompt = Prompt_rg | Prompt_cnpj | Prompt_address

definition prompts :: "string \<Rightarrow> prompt option" where
  "prompts k =
     (if k = ''rg'' then Some Prompt_rg
      else if k = ''cnpj'' then Some Prompt_cnpj
      else if k = ''address'' then Some Prompt_address
      else None)"

definition get_document_prompt :: "string \<Rightarrow> prompt" where
  \<comment> \<open>\<^verbatim>\<open>prompts.get(document_type, prompts['cnpj'])\<close>\<close>
  "get_document_prompt document_type =
     (case prompts document_type of Some p \<Rightarrow> p | None \<Rightarrow> Prompt_cnpj)"

text \<open>
  Reading the image, posting it with the prompt and taking the answer's text out of the
  reply is the outside world: \<open>ask\<close> gives \<^term>\<open>Inl\<close> of the message \<^verbatim>\<open>str(e)\<close> when
  any of these steps raises, \<^term>\<open>Inr\<close> of the model's text otherwise. Every exception is
  caught by the \<^verbatim>\<open>try\<close> around the body, so \<^verbatim>\<open>process_document\<close> itself never
  raises.
\<close>

definition process_document ::
  "pylib \<Rightarrow> (prompt \<Rightarrow> string \<Rightarrow> string + string) \<Rightarrow> string \<Rightarrow> string \<Rightarrow> ocr_result"
where
  "process_document L ask image_path document_type =
     (if document_type = ''facade''
      then empty_result
        \<lparr>success := True,
         document_type_key := Some document_type,
         raw_text_key := None,
         parsed_data := Some Facade_marker,
         note_text := Some (''Fachada armazenada para webhook - n'' @ [CHR 0xE3]
                            @ ''o processada por OCR'')\<rparr>
      else
        (case ask (get_document_prompt document_type) image_path of
           Inl e \<Rightarrow>
             empty_result
               \<lparr>success := False, document_type_key := Some document_type, error := Some e\<rparr>
         | Inr extracted_text \<Rightarrow>
             validate_ocr_result
               (empty_result
                  \<lparr>success := True,
                   document_type_key := Some document_type,
                   raw_text_key := Some extracted_text,
                   parsed_data :=
                     Some (Fields (parse_extracted_data L extracted_text document_type))\<rparr>)
               document_type))"

text \<open>\<^verbatim>\<open>process_document\<close> under its decorator \<^verbatim>\<open>@retry_ocr()\<close>: the outside world may
  answer differently at each attempt.\<close>

definition process_document_retry ::
  "OCRRetryConfig \<Rightarrow> pylib \<Rightarrow> (nat \<Rightarrow> prompt \<Rightarrow> string \<Rightarrow> string + string) \<Rightarrow> string \<Rightarrow> string \<Rightarrow> run"
where
  "process_document_retry cfg L ask image_path document_type =
     retry_ocr cfg (\<lambda>attempt. Returned (process_document L (ask attempt) image_path document_type))"

section \<open>The consolidator: \<^verbatim>\<open>consolidate_customer_data\<close>\<close>

text \<open>
  The values of the consolidated dict: \<^verbatim>\<open>None\<close>, a string, an integer, a float (the
  rational it denotes) or the list of field names under \<^verbatim>\<open>'needsReview'\<close>. The dict
  is an association list in insertion order; \<^verbatim>\<open>update\<close> keeps the position of a key.
\<close>

datatype pyval = PNone | PStr string | PInt int | PFloat rat | PList "string list"

datatype py_error = KeyError string

definition of_opt :: "string option \<Rightarrow> pyval" where
  "of_opt v = (case v of None \<Rightarrow> PNone | Some s \<Rightarrow> PStr s)"

definition dict_update :: "(string \<times> 'v) list \<Rightarrow> (string \<times> 'v) list \<Rightarrow> (string \<times> 'v) list" where
  "dict_update d upd = fold (\<lambda>(k, v) d'. dict_set d' k v) upd d"

definition py_or :: "string option \<Rightarrow> string option \<Rightarrow> string option" where
  \<comment> \<open>\<^verbatim>\<open>a or b\<close>\<close>
  "py_or a b = (if py_truthy a then a else b)"

definition consolidated_init :: "(string \<times> pyval) list" where
  "consolidated_init =
     [(''empresa'', PNone), (''cnpj'', PNone), (''inscricaoEstadual'', PNone),
      (''email'', PNone), (''telefone'', PNone), (''celular'', PNone),
      (''cep'', PNone), (''endereco'', PNone), (''numero'', PNone),
      (''complemento'', PNone), (''bairro'', PNone), (''cidade'', PNone), (''uf'', PNone),
      (''nomeCompleto'', PNone), (''cpf'', PNone), (''dataNascimento'', PNone),
      (''enderecoProprietario'', PNone),
      (''confidenceScore'', PInt 0), (''fieldsExtracted'', PInt 0), (''fieldsTotal'', PInt 0),
      (''needsReview'', PList [])]"

text \<open>
  \<^verbatim>\<open>'k' in ocr_results and ocr_results['k']['success']\<close>, then
  \<^verbatim>\<open>ocr_results['k']['parsed_data']\<close>, which raises \<^verbatim>\<open>KeyError\<close> when a successful
  result has no such key.
\<close>

definition successful_data ::
  "(string \<times> ocr_result) list \<Rightarrow> string \<Rightarrow> py_error + pdata option" where
  "successful_data ocr_results k =
     (case map_of ocr_results k of
        None \<Rightarrow> Inr None
      | Some r \<Rightarrow>
          (if success r
           then (case parsed_data r of None \<Rightarrow> Inl (KeyError ''parsed_data'') | Some p \<Rightarrow> Inr (Some p))
           else Inr None))"

definition cnpj_update :: "pdata \<Rightarrow> (string \<times> pyval) list" where
  "cnpj_update cnpj_data =
     [(''empresa'', of_opt (py_or (parsed_get cnpj_data ''razao_social'')
                                  (parsed_get cnpj_data ''nome_fantasia''))),
      (''cnpj'', of_opt (parsed_get cnpj_data ''cnpj'')),
      (''inscricaoEstadual'', of_opt (parsed_get cnpj_data ''inscricao_estadual'')),
      (''email'', of_opt (parsed_get cnpj_data ''email'')),
      (''telefone'', of_opt (parsed_get cnpj_data ''telefone'')),
      (''endereco'', of_opt (parsed_get cnpj_data ''endereco'')),
      (''numero'', of_opt (parsed_get cnpj_data ''numero'')),
      (''complemento'', of_opt (parsed_get cnpj_data ''complemento'')),
      (''bairro'', of_opt (parsed_get cnpj_data ''bairro'')),
      (''cidade'', of_opt (parsed_get cnpj_data ''cidade'')),
      (''uf'', of_opt (parsed_get cnpj_data ''uf'')),
      (''cep'', of_opt (parsed_get cnpj_data ''cep''))]"

definition rg_update :: "pdata \<Rightarrow> (string \<times> pyval) list" where
  "rg_update rg_data =
     [(''nomeCompleto'', of_opt (parsed_get rg_data ''nome_completo'')),
      (''cpf'', of_opt (parsed_get rg_data ''cpf'')),
      (''dataNascimento'', of_opt (parsed_get rg_data ''data_nascimento''))]"

definition address_update :: "pdata \<Rightarrow> (string \<times> pyval) list" where
  "address_update addr_data =
     [(''endereco'', of_opt (parsed_get addr_data ''endereco'')),
      (''numero'', of_opt (parsed_get addr_data ''numero'')),
      (''complemento'', of_opt (parsed_get addr_data ''complemento'')),
      (''bairro'', of_opt (parsed_get addr_data ''bairro'')),
      (''cidade'', of_opt (parsed_get addr_data ''cidade'')),
      (''uf'', of_opt (parsed_get addr_data ''uf'')),
      (''cep'', of_opt (parsed_get addr_data ''cep''))]"

fun truthy :: "pyval \<Rightarrow> bool" where
  "truthy PNone = False"
| "truthy (PStr s) = (s \<noteq> [])"
| "truthy (PInt i) = (i \<noteq> 0)"
| "truthy (PFloat q) = (q \<noteq> 0)"
| "truthy (PList xs) = (xs \<noteq> [])"

definition dict_item :: "(string \<times> pyval) list \<Rightarrow> string \<Rightarrow> pyval" where
  \<comment> \<open>\<^verbatim>\<open>consolidated[k]\<close> for a key of the initial dict, which is always present.\<close>
  "dict_item d k = (case map_of d k of None \<Rightarrow> PNone | Some v \<Rightarrow> v)"

text \<open>
  \<^verbatim>\<open>str(v).startswith('[')\<close>: the text of \<^verbatim>\<open>None\<close> is "None", that of a number begins
  with a digit or a sign, that of a list with an opening bracket.
\<close>

fun str_starts_bracket :: "pyval \<Rightarrow> bool" where
  "str_starts_bracket PNone = False"
| "str_starts_bracket (PStr s) = startswith ''['' s"
| "str_starts_bracket (PInt i) = False"
| "str_starts_bracket (PFloat q) = False"
| "str_starts_bracket (PList xs) = True"

definition is_metadata_key :: "string \<Rightarrow> bool" where
  "is_metadata_key k =
     (startswith ''confidence'' k \<or> startswith ''fields'' k \<or> k = ''needsReview'')"

definition is_filled :: "pyval \<Rightarrow> bool" where
  \<comment> \<open>\<^verbatim>\<open>v is not None and v != '' and not str(v).startswith('[')\<close>\<close>
  "is_filled v = (v \<noteq> PNone \<and> v \<noteq> PStr [] \<and> \<not> str_starts_bracket v)"

text \<open>
  \<^verbatim>\<open>'[REVISAR]' in str(value)\<close>. The text of a number holds no bracket. The text of a
  list of field names is the names between single quotes, separated by a comma and a
  blank, inside brackets (the names hold no character that \<^verbatim>\<open>repr\<close> would escape).
\<close>

definition list_str :: "string list \<Rightarrow> string" where
  "list_str xs = ''['' @ join '', '' (map (\<lambda>x. [CHR 0x27] @ x @ [CHR 0x27]) xs) @ '']''"

fun revisar_in_str :: "pyval \<Rightarrow> bool" where
  "revisar_in_str PNone = False"
| "revisar_in_str (PStr s) = str_contains ''[REVISAR]'' s"
| "revisar_in_str (PInt i) = False"
| "revisar_in_str (PFloat q) = False"
| "revisar_in_str (PList xs) = str_contains ''[REVISAR]'' (list_str xs)"

text \<open>
  The last loop appends to the list stored under \<^verbatim>\<open>'needsReview'\<close> while it iterates
  over the items; when it reaches that key the value it reads is the list built so far.
\<close>

fun review_loop :: "(string \<times> pyval) list \<Rightarrow> string list \<Rightarrow> string list" where
  "review_loop [] acc = acc"
| "review_loop ((key, v) # items) acc =
     (let v' = (if key = ''needsReview'' then PList acc else v)
      in if truthy v' \<and> revisar_in_str v'
         then review_loop items (acc @ [key])
         else review_loop items acc)"

definition finish_consolidated :: "(string \<times> pyval) list \<Rightarrow> (string \<times> pyval) list" where
  \<comment> \<open>From \<^verbatim>\<open>total_fields = ...\<close> to the end of the function.\<close>
  "finish_consolidated consolidated =
     (let total_fields = length (filter (\<lambda>k. \<not> is_metadata_key k) (map fst consolidated));
          filled_fields = length (filter is_filled (map snd consolidated));
          consolidated = dict_set consolidated ''fieldsTotal'' (PInt (int total_fields));
          consolidated = dict_set consolidated ''fieldsExtracted'' (PInt (int filled_fields));
          consolidated = dict_set consolidated ''confidenceScore''
            (if total_fields > 0
             then PFloat (float_mul (float_div (of_nat filled_fields) (of_nat total_fields)) 100)
             else PInt 0)
      in dict_set consolidated ''needsReview'' (PList (review_loop consolidated [])))"

definition consolidate_customer_data ::
  "(string \<times> ocr_result) list \<Rightarrow> py_error + (string \<times> pyval) list" where
  "consolidate_customer_data ocr_results =
     (case successful_data ocr_results ''cnpj'' of
        Inl e \<Rightarrow> Inl e
      | Inr cnpj \<Rightarrow>
     (let consolidated =
            (case cnpj of None \<Rightarrow> consolidated_init
             | Some cnpj_data \<Rightarrow> dict_update consolidated_init (cnpj_update cnpj_data))
      in case successful_data ocr_results ''rg'' of
        Inl e \<Rightarrow> Inl e
      | Inr rg \<Rightarrow>
     (let consolidated =
            (case rg of None \<Rightarrow> consolidated
             | Some rg_data \<Rightarrow> dict_update consolidated (rg_update rg_data))
      in case successful_data ocr_results ''address'' of
        Inl e \<Rightarrow> Inl e
      | Inr address \<Rightarrow>
     (let consolidated =
            (case address of None \<Rightarrow> consolidated
             | Some addr_data \<Rightarrow>
                 (if \<not> truthy (dict_item consolidated ''endereco'')
                  then dict_update consolidated (address_update addr_data)
                  else consolidated))
      in Inr (finish_consolidated consolidated)))))"

section \<open>Notions used to state the properties\<close>

definition matches_keyword :: "string \<Rightarrow> bool" where
  \<comment> \<open>The message, in lower case, holds one of the keywords of \<^const>\<open>should_retry\<close>.\<close>
  "matches_keyword msg =
     list_ex (\<lambda>keyword. str_contains keyword (py_lower msg)) retryable_keywords"

definition failure_message :: "outcome \<Rightarrow> string option" where
  \<comment> \<open>The error message of a failed attempt, as the wrapper reads it: the text of the
      exception, or the entry \<^verbatim>\<open>'error'\<close> (default the empty string) of a returned dict
      with \<^verbatim>\<open>success\<close> false. \<^term>\<open>None\<close> when the attempt did not fail.\<close>
  "failure_message out =
     (case out of
        Raised e \<Rightarrow> Some e
      | Returned r \<Rightarrow>
          (if success r then None else Some (case error r of None \<Rightarrow> [] | Some m \<Rightarrow> m)))"

definition transient_failure :: "outcome \<Rightarrow> bool" where
  \<comment> \<open>The attempt failed with a message that matches a transient keyword.\<close>
  "transient_failure out =
     (case failure_message out of None \<Rightarrow> False | Some m \<Rightarrow> matches_keyword m)"

definition record_of :: "ocr_result \<Rightarrow> pdata" where
  \<comment> \<open>\<^verbatim>\<open>result.get('parsed_data', {})\<close>: the parsed record the evaluator reads.\<close>
  "record_of result = (case parsed_data result of None \<Rightarrow> Fields [] | Some p \<Rightarrow> p)"

definition essential_found :: "pdata \<Rightarrow> string \<Rightarrow> bool" where
  \<comment> \<open>The field counts as found: its value is not null, is not empty after trimming, and
      is none of the three reserved strings: the marker for illegible text, the marker for
      review, and the word \<^verbatim>\<open>null\<close>.\<close>
  "essential_found pd field =
     (case parsed_get pd field of
        None \<Rightarrow> False
      | Some s \<Rightarrow>
          py_strip s \<noteq> []
          \<and> s \<noteq> ''[ILEG'' @ [CHR 0xCD] @ ''VEL]'' \<and> s \<noteq> ''[REVISAR]'' \<and> s \<noteq> ''null'')"


definition found_count :: "pdata \<Rightarrow> string list \<Rightarrow> nat" where
  \<comment> \<open>The number of essential fields found.\<close>
  "found_count pd required = length (filter (essential_found pd) required)"

section \<open>Example inputs\<close>

definition rg_one_field :: ocr_result where
  \<comment> \<open>An identity document for which the parser found the name only.\<close>
  "rg_one_field =
     empty_result
       \<lparr>success := True,
        parsed_data := Some (Fields [(''nome_completo'', Some ''MARIA DA SILVA''),
                                     (''data_nascimento'', None), (''cpf'', None)])\<rparr>"



section \<open>Notions used to state the properties of the consolidator\<close>

definition address_keys :: "string list" where
  \<comment> \<open>The address fields of the consolidated dict.\<close>
  "address_keys =
     [''endereco'', ''numero'', ''complemento'', ''bairro'', ''cidade'', ''uf'', ''cep'']"

definition source_data :: "(string \<times> ocr_result) list \<Rightarrow> string \<Rightarrow> pdata option" where
  \<comment> \<open>The parsed record of a document type that is present and successful.\<close>
  "source_data ocr_results k =
     (case map_of ocr_results k of
        None \<Rightarrow> None
      | Some r \<Rightarrow> if success r then parsed_data r else None)"

definition source_field ::
  "(string \<times> ocr_result) list \<Rightarrow> string \<Rightarrow> string \<Rightarrow> string option" where
  \<comment> \<open>A field of that record; null when the document type is absent or failed.\<close>
  "source_field ocr_results k field =
     (case source_data ocr_results k of None \<Rightarrow> None | Some d \<Rightarrow> parsed_get d field)"

definition consolidated_item ::
  "py_error + (string \<times> pyval) list \<Rightarrow> string \<Rightarrow> pyval option" where
  \<comment> \<open>An entry of the consolidated dict, when the consolidator returned one.\<close>
  "consolidated_item res k = (case res of Inl e \<Rightarrow> None | Inr c \<Rightarrow> Some (dict_item c k))"

section \<open>Example inputs of the consolidator\<close>

definition failed_result :: "string \<Rightarrow> ocr_result" where
  "failed_result msg = empty_result\<lparr>success := False, error := Some msg\<rparr>"

definition success_result :: "parsed_record \<Rightarrow> ocr_result" where
  "success_result d = empty_result\<lparr>success := True, parsed_data := Some (Fields d)\<rparr>"

definition all_failed_results :: "(string \<times> ocr_result) list" where
  "all_failed_results =
     [(''rg'', failed_result ''connection timeout''),
      (''cnpj'', failed_result (''Arquivo n'' @ [CHR 0xE3] @ ''o encontrado'')),
      (''address'', failed_result ''Erro na API OCR: 500'')]"

definition partial_cnpj_results :: "(string \<times> ocr_result) list" where
  \<comment> \<open>The business registration gives the street but no postal code.\<close>
  "partial_cnpj_results =
     [(''cnpj'', success_result [(''endereco'', Some ''Rua A''), (''cep'', None)]),
      (''address'',
         success_result [(''endereco'', Some ''Rua B''), (''cep'', Some ''01310-100'')])]"

definition no_street_results :: "(string \<times> ocr_result) list" where
  \<comment> \<open>The business registration gives a postal code but no street.\<close>
  "no_street_results =
     [(''cnpj'', success_result [(''endereco'', None), (''cep'', Some ''70000-000'')]),
      (''address'', success_result [(''endereco'', Some ''Rua B''), (''cep'', None)])]"

section \<open>Example inputs of the parser\<close>

text \<open>
  A model answer made of two JSON objects side by side. On it the library behaves as
  follows: \<^verbatim>\<open>json.loads\<close> of the whole text raises (extra data), the two fenced-block
  patterns find nothing, the bare-brace pattern finds the two objects, each of which
  decodes, and no field pattern matches. The record below gives these answers.
\<close>

definition two_objects :: string where
  \<open>two_objects = ''{"empresa": "ACME LTDA"} {"x": "y"}''\<close>

definition two_objects_lib :: pylib where
  \<open>two_objects_lib =
     \<lparr>json_loads = (\<lambda>s. if s = ''{"empresa": "ACME LTDA"}''
                           then Some [(''empresa'', JStr ''ACME LTDA'')]
                         else if s = ''{"x": "y"}'' then Some [(''x'', JStr ''y'')]
                         else None),
      re_findall = (\<lambda>p flags s. if p = Json_pattern 2
                                   then [''{"empresa": "ACME LTDA"}'', ''{"x": "y"}'']
                                   else []),
      re_search = (\<lambda>p flags s. None),
      re_match = (\<lambda>p s. False),
      set_iter = remdups\<rparr>\<close>

text \<open>
  A certificate text "Razao Social: ACME COMERCIO LTDA" (with a tilde on the first a): the
  first company-name pattern captures the name, no other pattern matches.
\<close>

definition acme_lib :: pylib where
  "acme_lib =
     \<lparr>json_loads = (\<lambda>s. None),
      re_findall = (\<lambda>p flags s. []),
      re_search = (\<lambda>p flags s. if p = Empresa_pattern 0 then Some ''ACME COMERCIO LTDA'' else None),
      re_match = (\<lambda>p s. False),
      set_iter = remdups\<rparr>"

definition acme_text :: string where
  "acme_text = ''Raz'' @ [CHR 0xE3] @ ''o Social: ACME COMERCIO LTDA''"

text \<open>An answer in which nothing is found (for example the text "???"): no JSON, no match
  of any pattern.\<close>

definition no_match_lib :: pylib where
  "no_match_lib =
     \<lparr>json_loads = (\<lambda>s. None),
      re_findall = (\<lambda>p flags s. []),
      re_search = (\<lambda>p flags s. None),
      re_match = (\<lambda>p s. False),
      set_iter = remdups\<rparr>"


chapter \<open>Properties\<close>

section \<open>The retry decorator\<close>

lemma should_retry_iff:
  "should_retry cfg msg k = (int k < max_retries cfg \<and> matches_keyword msg)"
  by (auto simp: should_retry_def matches_keyword_def Let_def)

text \<open>When every attempt fails with a transient message, the loop started at attempt \<open>k\<close>
  makes all the calls that remain and sleeps before each but the first of them.\<close>

lemma retry_loop_transient:
  assumes "\<And>k. transient_failure (func k)" and "max_retries cfg = int m"
  shows "k \<le> m \<Longrightarrow>
         calls (retry_loop cfg func [k..<Suc m] le n sl) = n + (Suc m - k)
         \<and> \<not> success (returned (retry_loop cfg func [k..<Suc m] le n sl))
         \<and> length (sleeps (retry_loop cfg func [k..<Suc m] le n sl)) = length sl + (m - k)"
proof (induction "m - k" arbitrary: k le n sl)
  case 0
  then have km: "k = m" by simp
  have t: "transient_failure (func m)" by (rule assms(1))
  show ?case
    using t assms(2) unfolding km
    by (cases "func m")
       (auto simp: should_retry_iff transient_failure_def failure_message_def all_failed_def
                   empty_result_def split: if_splits)
next
  case (Suc d)
  then have lt: "k < m" by simp
  have t: "transient_failure (func k)" by (rule assms(1))
  have step: "[k..<Suc m] = k # [Suc k..<Suc m]" using lt by (simp add: upt_conv_Cons)
  have ih: "\<And>le n sl. calls (retry_loop cfg func [Suc k..<Suc m] le n sl) = n + (Suc m - Suc k)
         \<and> \<not> success (returned (retry_loop cfg func [Suc k..<Suc m] le n sl))
         \<and> length (sleeps (retry_loop cfg func [Suc k..<Suc m] le n sl)) = length sl + (m - Suc k)"
    using Suc.hyps(1)[of "Suc k"] Suc.hyps(2) lt by simp
  show ?case
    unfolding step
    using t assms(2) lt ih
    by (cases "func k")
       (auto simp: should_retry_iff transient_failure_def failure_message_def split: if_splits)
qed

text \<open>
  Claim C4. With \<^verbatim>\<open>max_retries = 3\<close>, when every attempt fails with an error whose
  message matches a transient keyword (the wrapped function raises it, or returns it in a
  dict with \<^verbatim>\<open>success\<close> false, as \<^verbatim>\<open>process_document\<close> does), the wrapper calls the
  function exactly 4 times, sleeps 3 times in between, and returns a failure.
\<close>

theorem C4_retry_bound:
  assumes "max_retries cfg = 3" and "\<And>k. transient_failure (func k)"
  shows "calls (retry_ocr cfg func) = 4
         \<and> \<not> success (returned (retry_ocr cfg func))
         \<and> length (sleeps (retry_ocr cfg func)) = 3"
proof -
  have m: "max_retries cfg = int 3" using assms(1) by simp
  have u: "[0..<nat (max_retries cfg + 1)] = [0..<Suc 3]" using assms(1) by simp
  show ?thesis
    unfolding retry_ocr_def u
    using retry_loop_transient[OF assms(2) m, where k=0 and le=None and n=0 and sl="[]"]
    by simp
qed

theorem C4_retry_bound_witness:
  "max_retries default_config = 3
   \<and> (\<forall>k. transient_failure ((\<lambda>_. Raised ''connection timeout'') k))
   \<and> calls (retry_ocr default_config (\<lambda>_. Raised ''connection timeout'')) = 4
   \<and> \<not> success (returned (retry_ocr default_config (\<lambda>_. Raised ''connection timeout'')))
   \<and> length (sleeps (retry_ocr default_config (\<lambda>_. Raised ''connection timeout''))) = 3"
proof -
  have m: "max_retries default_config = 3" by (simp add: default_config_def)
  have t: "\<And>k. transient_failure ((\<lambda>_. Raised ''connection timeout'') k)"
    by (simp add: transient_failure_def failure_message_def matches_keyword_def
        retryable_keywords_def py_lower_def lower_char_def)
  show ?thesis using C4_retry_bound[OF m t] m t by simp
qed

text \<open>
  Whatever the wrapped function does, the loop started at attempt \<open>k\<close> after \<open>k\<close> calls
  stops after a call that decides the result: a returned dict is passed on unchanged, an
  exception ends in the dict built after the loop, with that exception as the last one.
\<close>

lemma retry_loop_last:
  assumes "max_retries cfg = int m"
  shows "k \<le> m \<Longrightarrow>
         k < calls (retry_loop cfg func [k..<Suc m] le k sl)
         \<and> calls (retry_loop cfg func [k..<Suc m] le k sl) \<le> Suc m
         \<and> (case func (calls (retry_loop cfg func [k..<Suc m] le k sl) - 1) of
               Raised e \<Rightarrow> returned (retry_loop cfg func [k..<Suc m] le k sl) = all_failed cfg (Some e)
             | Returned r \<Rightarrow> returned (retry_loop cfg func [k..<Suc m] le k sl) = r)"
proof (induction "m - k" arbitrary: k le sl)
  case 0
  then have km: "k = m" by simp
  show ?case
    using assms unfolding km
    by (cases "func m") (auto simp: should_retry_iff Let_def)
next
  case (Suc d)
  then have lt: "k < m" by simp
  define xs where "xs = [Suc k..<Suc m]"
  have step: "[k..<Suc m] = k # xs" using lt by (simp add: upt_conv_Cons xs_def)
  have ih: "\<And>le sl. Suc k < calls (retry_loop cfg func xs le (Suc k) sl)
         \<and> calls (retry_loop cfg func xs le (Suc k) sl) \<le> Suc m
         \<and> (case func (calls (retry_loop cfg func xs le (Suc k) sl) - 1) of
               Raised e \<Rightarrow> returned (retry_loop cfg func xs le (Suc k) sl) = all_failed cfg (Some e)
             | Returned r \<Rightarrow> returned (retry_loop cfg func xs le (Suc k) sl) = r)"
    unfolding xs_def using Suc.hyps(1)[of "Suc k"] Suc.hyps(2) lt by simp
  show ?case
  proof (cases "func k")
    case (Raised e)
    show ?thesis
    proof (cases "should_retry cfg e k")
      case True
      have eq: "retry_loop cfg func (k # xs) le k sl
            = retry_loop cfg func xs (Some e) (Suc k) (sl @ [get_delay cfg k])"
        using True Raised lt assms by simp
      show ?thesis unfolding step eq using ih[of "Some e" "sl @ [get_delay cfg k]"]
        by (simp add: Suc_lessD)
    next
      case False
      then show ?thesis unfolding step using Raised lt by simp
    qed
  next
    case (Returned r)
    let ?msg = "case error r of None \<Rightarrow> [] | Some m \<Rightarrow> m"
    show ?thesis
    proof (cases "\<not> success r \<and> should_retry cfg ?msg k")
      case True
      have eq: "retry_loop cfg func (k # xs) le k sl
            = retry_loop cfg func xs (Some ?msg) (Suc k) (sl @ [get_delay cfg k])"
        using True Returned lt assms by (simp add: Let_def)
      show ?thesis unfolding step eq using ih[of "Some ?msg" "sl @ [get_delay cfg k]"]
        by (simp add: Suc_lessD)
    next
      case False
      then show ?thesis unfolding step using Returned lt by (auto simp: Let_def)
    qed
  qed
qed

lemma not_transient_invalid_image: "\<not> matches_keyword ''invalid image''"
  by code_simp

lemma not_transient_401: "\<not> matches_keyword ''Erro na API OCR: 401''"
  by code_simp

text \<open>
  So, for a configuration with \<^verbatim>\<open>max_retries\<close> not negative: a run makes between 1 and
  \<^verbatim>\<open>max_retries + 1\<close> calls; when the last call made returned a dict, the caller gets
  that very dict; when it raised, the caller gets the dict built after the loop, with the
  message of that exception under \<^verbatim>\<open>'last_error'\<close>.
\<close>

lemma retry_ocr_last_call:
  assumes "0 \<le> max_retries cfg"
  shows "1 \<le> calls (retry_ocr cfg func)
         \<and> int (calls (retry_ocr cfg func)) \<le> max_retries cfg + 1
         \<and> (case func (calls (retry_ocr cfg func) - 1) of
               Raised e \<Rightarrow> returned (retry_ocr cfg func) = all_failed cfg (Some e)
             | Returned r \<Rightarrow> returned (retry_ocr cfg func) = r)"
proof -
  from assms obtain m where m: "max_retries cfg = int m"
    by (metis nonneg_int_cases)
  have R: "retry_ocr cfg func = retry_loop cfg func [0..<Suc m] None 0 []"
    by (simp add: retry_ocr_def m nat_add_distrib)
  show ?thesis
    unfolding R using retry_loop_last[OF m, of 0 func None "[]"] m by simp
qed

text \<open>
  The dict built after the loop always reports \<^verbatim>\<open>max_retries + 1\<close> attempts. When the
  first call raises an error that is not retried, the loop is left at once and that count
  is reported after a single call.
\<close>

lemma early_break_reports_all_attempts:
  assumes "func 0 = Raised e" and "\<not> matches_keyword e" and "0 \<le> max_retries cfg"
  shows "calls (retry_ocr cfg func) = 1
         \<and> \<not> success (returned (retry_ocr cfg func))
         \<and> last_error (returned (retry_ocr cfg func)) = Some e
         \<and> retry_attempts (returned (retry_ocr cfg func)) = Some (max_retries cfg + 1)"
proof -
  have u: "[0..<nat (max_retries cfg + 1)] = 0 # [1..<nat (max_retries cfg + 1)]"
    using assms(3) by (simp add: upt_conv_Cons)
  show ?thesis
    unfolding retry_ocr_def u using assms(1,2)
    by (simp add: should_retry_iff all_failed_def empty_result_def str_exception_def)
qed

lemma str_of_int_4: "str_of_int 4 = ''4''"
  by code_simp

text \<open>
  Claim C9 says that every run ending in failure returns \<^verbatim>\<open>success\<close> false with the last
  error message and the number of attempts actually performed. The code reports a wrong
  number: when the wrapped function raises an error that is not retried at the first
  attempt, one call is made, and the dict built after the loop (under the comment "todas
  as tentativas falharam") carries \<^verbatim>\<open>retry_attempts = max_retries + 1 = 4\<close> and the
  message "Falha apos 4 tentativas" (with an acute accent on the o). And when the wrapped
  function is \<^verbatim>\<open>process_document\<close>, which turns every exception into a failure dict,
  that dict reaches the caller with no attempt count at all.
\<close>

theorem C9_attempt_count_misreported:
  "calls (retry_ocr default_config (\<lambda>_. Raised ''invalid image'')) = 1
   \<and> \<not> success (returned (retry_ocr default_config (\<lambda>_. Raised ''invalid image'')))
   \<and> last_error (returned (retry_ocr default_config (\<lambda>_. Raised ''invalid image'')))
       = Some ''invalid image''
   \<and> retry_attempts (returned (retry_ocr default_config (\<lambda>_. Raised ''invalid image'')))
       = Some 4
   \<and> error (returned (retry_ocr default_config (\<lambda>_. Raised ''invalid image'')))
       = Some (''Falha ap'' @ [CHR 0xF3] @ ''s 4 tentativas: invalid image'')
   \<and> calls (process_document_retry default_config no_match_lib
               (\<lambda>k p img. Inl ''Erro na API OCR: 401'') ''rg.jpg'' ''rg'') = 1
   \<and> error (returned (process_document_retry default_config no_match_lib
               (\<lambda>k p img. Inl ''Erro na API OCR: 401'') ''rg.jpg'' ''rg''))
       = Some ''Erro na API OCR: 401''
   \<and> retry_attempts (returned (process_document_retry default_config no_match_lib
               (\<lambda>k p img. Inl ''Erro na API OCR: 401'') ''rg.jpg'' ''rg'')) = None"
proof -
  have m: "(0::int) \<le> max_retries default_config" "max_retries default_config + 1 = 4"
    by (simp_all add: default_config_def)
  have u: "[0..<nat (max_retries default_config + 1)] = 0 # [1..<4]"
    by (simp add: default_config_def upt_conv_Cons)
  have a: "calls (retry_ocr default_config (\<lambda>_. Raised ''invalid image'')) = 1
     \<and> \<not> success (returned (retry_ocr default_config (\<lambda>_. Raised ''invalid image'')))
     \<and> last_error (returned (retry_ocr default_config (\<lambda>_. Raised ''invalid image'')))
         = Some ''invalid image''
     \<and> retry_attempts (returned (retry_ocr default_config (\<lambda>_. Raised ''invalid image'')))
         = Some 4"
    using early_break_reports_all_attempts[where func="\<lambda>_. Raised ''invalid image''"
        and e="''invalid image''" and cfg=default_config,
        OF refl not_transient_invalid_image m(1)] m(2)
    by simp
  have b: "error (returned (retry_ocr default_config (\<lambda>_. Raised ''invalid image'')))
       = Some (''Falha ap'' @ [CHR 0xF3] @ ''s 4 tentativas: invalid image'')"
    unfolding retry_ocr_def u
    by (simp add: should_retry_iff not_transient_invalid_image all_failed_def empty_result_def
        str_exception_def m(2) str_of_int_4)
  have p: "process_document no_match_lib (\<lambda>p img. Inl ''Erro na API OCR: 401'') ''rg.jpg'' ''rg''
           = empty_result\<lparr>success := False, document_type_key := Some ''rg'',
                          error := Some ''Erro na API OCR: 401''\<rparr>"
    by (simp add: process_document_def)
  have c: "calls (process_document_retry default_config no_match_lib
               (\<lambda>k p img. Inl ''Erro na API OCR: 401'') ''rg.jpg'' ''rg'') = 1
     \<and> error (returned (process_document_retry default_config no_match_lib
               (\<lambda>k p img. Inl ''Erro na API OCR: 401'') ''rg.jpg'' ''rg''))
         = Some ''Erro na API OCR: 401''
     \<and> retry_attempts (returned (process_document_retry default_config no_match_lib
               (\<lambda>k p img. Inl ''Erro na API OCR: 401'') ''rg.jpg'' ''rg'')) = None"
    unfolding process_document_retry_def retry_ocr_def u p
    by (simp add: should_retry_iff not_transient_401 empty_result_def)
  from a b c show ?thesis by simp
qed


section \<open>Float arithmetic on the scores\<close>

lemma floor_rat_numeral: "\<lfloor>(numeral a :: rat) / numeral b\<rfloor> = numeral a div numeral b"
  using floor_divide_of_int_eq[of "numeral a" "numeral b", where ?'a = rat] by simp

lemmas float_eval =
  float_div_def float_mul_def round_double_def norm_exponent.simps pow2_def
  round_half_even_def Let_def floor_rat_numeral





lemma float_div_3_17: "float_div 3 17 = 6358023003346583 / 2 ^ 55"
  by (simp add: float_eval)



lemma float_mul_3_17: "float_mul (6358023003346583 / 2 ^ 55) 100 = 2483602735682259 / 2 ^ 47"
  by (simp add: float_eval)



lemma float_score_3_17: "float_mul (float_div 3 17) 100 = 2483602735682259 / 2 ^ 47"
  unfolding float_div_3_17 by (rule float_mul_3_17)


section \<open>The quality evaluator\<close>

lemma py_strip_Nil [simp]: "py_strip [] = []"
  by (simp add: py_strip_def)

lemma field_is_valid_iff: "field_is_valid (parsed_get pd f) = essential_found pd f"
  by (auto simp: field_is_valid_def essential_found_def reserved_markers_def
           split: option.splits)

lemma count_fields_eq:
  "count_fields pd fs (v, fnd, mis) =
     (v + length (filter (essential_found pd) fs),
      fnd @ filter (essential_found pd) fs,
      mis @ filter (\<lambda>f. \<not> essential_found pd f) fs)"
  by (induction fs arbitrary: v fnd mis) (simp_all add: field_is_valid_iff)


text \<open>What \<^const>\<open>validate_ocr_result\<close> stores for a result that arrives with \<^verbatim>\<open>success\<close>
  true and a document type of the table.\<close>

lemma validate_ocr_result_accept:
  assumes "success result" and "quality_checks document_type = Some (required, min_fields)"
  shows "success (validate_ocr_result result document_type)
           = (min_fields \<le> found_count (record_of result) required)"
    and "quality_metrics (validate_ocr_result result document_type) =
           Some \<lparr>score = float_mul (float_div (of_nat (found_count (record_of result) required))
                                            (of_nat (length required))) 100,
                 valid_fields = found_count (record_of result) required,
                 total_required = length required,
                 found_fields = filter (essential_found (record_of result)) required,
                 missing_required = filter (\<lambda>f. \<not> essential_found (record_of result) f) required,
                 is_acceptable = (min_fields \<le> found_count (record_of result) required),
                 needs_retry = (\<not> min_fields \<le> found_count (record_of result) required)\<rparr>"
    and "error (validate_ocr_result result document_type) =
           (if min_fields \<le> found_count (record_of result) required then error result
            else Some (rejection_message (found_count (record_of result) required)
                         (length required) min_fields))"
  using assms
  by (simp_all add: validate_ocr_result_def Let_def count_fields_eq found_count_def record_of_def)





section \<open>Quality rejections and the retry decorator\<close>

text \<open>The three messages a rejection can carry. None holds a keyword of
  \<^const>\<open>should_retry\<close>.\<close>

lemma rejection_0_3_2: "\<not> matches_keyword (rejection_message 0 3 2)"
  by code_simp

lemma rejection_1_3_2: "\<not> matches_keyword (rejection_message 1 3 2)"
  by code_simp

lemma rejection_0_2_1: "\<not> matches_keyword (rejection_message 0 2 1)"
  by code_simp

lemma quality_rejection_never_retried:
  assumes "success result" and "\<not> success (validate_ocr_result result document_type)"
  shows "\<exists>msg. error (validate_ocr_result result document_type) = Some msg
               \<and> \<not> should_retry cfg msg attempt"
proof -
  from assms obtain required min_fields where
    qc: "quality_checks document_type = Some (required, min_fields)"
    by (cases "quality_checks document_type") (auto simp: validate_ocr_result_def)
  let ?v = "found_count (record_of result) required"
  have e: "error (validate_ocr_result result document_type)
             = Some (rejection_message ?v (length required) min_fields) \<and> ?v < min_fields"
    using assms qc
    by (simp add: validate_ocr_result_def Let_def count_fields_eq found_count_def record_of_def
             split: if_splits)
  have "(length required = 3 \<and> min_fields = 2) \<or> (length required = 2 \<and> min_fields = 1)"
    using qc by (auto simp: quality_checks_def split: if_splits)
  with e have "(?v = 0 \<and> length required = 3 \<and> min_fields = 2)
             \<or> (?v = 1 \<and> length required = 3 \<and> min_fields = 2)
             \<or> (?v = 0 \<and> length required = 2 \<and> min_fields = 1)"
    by auto
  then have "\<not> matches_keyword (rejection_message ?v (length required) min_fields)"
    using rejection_0_3_2 rejection_1_3_2 rejection_0_2_1 by auto
  then show ?thesis using e by (simp add: should_retry_iff)
qed

text \<open>So a quality rejection coming out of \<^const>\<open>process_document\<close> at the first attempt
  ends the run of the decorated function: one call, however large \<^verbatim>\<open>max_retries\<close> is.\<close>

lemma process_document_quality_rejection_single_call:
  assumes "0 \<le> max_retries cfg" and "document_type \<noteq> ''facade''"
    and "ask 0 (get_document_prompt document_type) image_path = Inr answer"
    and "\<not> success (process_document L (ask 0) image_path document_type)"
  shows "calls (process_document_retry cfg L ask image_path document_type) = 1
         \<and> returned (process_document_retry cfg L ask image_path document_type)
             = process_document L (ask 0) image_path document_type"
proof -
  let ?raw = "empty_result
                  \<lparr>success := True,
                   document_type_key := Some document_type,
                   raw_text_key := Some answer,
                   parsed_data :=
                     Some (Fields (parse_extracted_data L answer document_type))\<rparr>"
  let ?r = "process_document L (ask 0) image_path document_type"
  have r: "?r = validate_ocr_result ?raw document_type"
    using assms(2,3) by (simp add: process_document_def)
  have ok: "success ?raw" by simp
  from assms(4) have rej: "\<not> success (validate_ocr_result ?raw document_type)"
    unfolding r .
  from quality_rejection_never_retried[OF ok rej, of cfg 0]
  obtain msg where m: "error ?r = Some msg" "\<not> should_retry cfg msg 0"
    unfolding r by blast
  have u: "[0..<nat (max_retries cfg + 1)] = 0 # [1..<nat (max_retries cfg + 1)]"
    using assms(1) by (simp add: upt_conv_Cons)
  show ?thesis
    unfolding process_document_retry_def retry_ocr_def u
    using assms(4) m by simp
qed

lemma rg_one_field_count:
  "found_count (record_of rg_one_field) [''nome_completo'', ''data_nascimento'', ''cpf''] = 1"
  by code_simp

text \<open>
  Claim C2 says that a quality rejection is retried while the attempt count is below
  \<^verbatim>\<open>max_retries\<close>, whatever its message. The code does not do so. For an identity
  document with one field found out of three, the evaluator rejects the result and sets
  \<^verbatim>\<open>needs_retry\<close>, but the wrapper decides by the words of the message
  "Apenas 1/3 campos essenciais extraidos. Minimo: 2", which holds none of the keywords:
  with \<^verbatim>\<open>max_retries = 3\<close> it returns after a single call.
\<close>

theorem C2_quality_rejection_not_retried:
  "\<not> success (validate_ocr_result rg_one_field ''rg'')
   \<and> map_option needs_retry (quality_metrics (validate_ocr_result rg_one_field ''rg'')) = Some True
   \<and> error (validate_ocr_result rg_one_field ''rg'') = Some (rejection_message 1 3 2)
   \<and> \<not> should_retry default_config (rejection_message 1 3 2) 0
   \<and> calls (retry_ocr default_config (\<lambda>_. Returned (validate_ocr_result rg_one_field ''rg''))) = 1"
proof -
  let ?r = "validate_ocr_result rg_one_field ''rg''"
  have ok: "success rg_one_field" by (simp add: rg_one_field_def empty_result_def)
  have qc: "quality_checks ''rg'' = Some ([''nome_completo'', ''data_nascimento'', ''cpf''], 2)"
    by (simp add: quality_checks_def)
  have len: "length [''nome_completo'', ''data_nascimento'', ''cpf''] = 3" by simp
  have s: "\<not> success ?r"
    unfolding validate_ocr_result_accept(1)[OF ok qc] rg_one_field_count by simp
  have e: "error ?r = Some (rejection_message 1 3 2)"
    unfolding validate_ocr_result_accept(3)[OF ok qc] rg_one_field_count len by simp
  have q: "map_option needs_retry (quality_metrics ?r) = Some True"
    unfolding validate_ocr_result_accept(2)[OF ok qc] rg_one_field_count by simp
  have n: "\<not> should_retry default_config (rejection_message 1 3 2) 0"
    using rejection_1_3_2 by (simp add: should_retry_iff)
  have c: "calls (retry_ocr default_config (\<lambda>_. Returned ?r)) = 1"
    using s e n by (simp add: retry_ocr_def default_config_def upt_conv_Cons)
  show ?thesis using s e q n c by simp
qed


section \<open>The consolidator\<close>

lemma dict_item_dict_set:
  "dict_item (dict_set d k v) k' = (if k' = k then v else dict_item d k')"
  by (induction d) (auto simp: dict_item_def)

lemma successful_data_failed:
  assumes "\<forall>r \<in> snd ` set ocr_results. \<not> success r"
  shows "successful_data ocr_results k = Inr None"
proof (cases "map_of ocr_results k")
  case None
  then show ?thesis by (simp add: successful_data_def)
next
  case (Some r)
  then have "(k, r) \<in> set ocr_results" by (rule map_of_SomeD)
  then have "r \<in> snd ` set ocr_results" by force
  with assms have "\<not> success r" by blast
  with Some show ?thesis by (simp add: successful_data_def)
qed

lemma init_total: "length (filter (\<lambda>k. \<not> is_metadata_key k) (map fst consolidated_init)) = 17"
  by code_simp

lemma init_filled: "length (filter is_filled (map snd consolidated_init)) = 3"
  by code_simp

lemma finish_init_score:
  "dict_item (finish_consolidated consolidated_init) ''confidenceScore''
     = PFloat (2483602735682259 / 2 ^ 47)"
  "dict_item (finish_consolidated consolidated_init) ''fieldsExtracted'' = PInt 3"
  "dict_item (finish_consolidated consolidated_init) ''fieldsTotal'' = PInt 17"
proof -
  have f: "float_mul (float_div (of_nat 3) (of_nat 17)) 100 = 2483602735682259 / 2 ^ 47"
    using float_score_3_17 by simp
  show "dict_item (finish_consolidated consolidated_init) ''confidenceScore''
          = PFloat (2483602735682259 / 2 ^ 47)"
    unfolding finish_consolidated_def Let_def init_total init_filled f
    by (simp add: dict_item_dict_set)
  show "dict_item (finish_consolidated consolidated_init) ''fieldsExtracted'' = PInt 3"
    unfolding finish_consolidated_def Let_def init_total init_filled
    by (simp add: dict_item_dict_set)
  show "dict_item (finish_consolidated consolidated_init) ''fieldsTotal'' = PInt 17"
    unfolding finish_consolidated_def Let_def init_total init_filled
    by (simp add: dict_item_dict_set)
qed

lemma consolidate_all_failed:
  assumes "\<forall>r \<in> snd ` set ocr_results. \<not> success r"
  shows "consolidate_customer_data ocr_results = Inr (finish_consolidated consolidated_init)"
  by (simp add: consolidate_customer_data_def successful_data_failed[OF assms])


text \<open>
  Claim C3 says that when every document failed the consolidator still returns a profile
  and its confidence score is 0. The profile is returned, but the score is not 0: the
  count of filled values runs over all values of the dict, and the three metadata entries
  that start as the integer 0 pass its test (not \<^verbatim>\<open>None\<close>, not the empty string, text
  not starting with a bracket), while the count of fields leaves the metadata keys out.
  The score is the float \<^verbatim>\<open>(3 / 17) * 100\<close>, that is \<open>2483602735682259 / 2 ^ 47\<close>, which
  Python prints as 17.647058823529413.
\<close>

theorem C3_all_failed_score:
  "consolidated_item (consolidate_customer_data all_failed_results) ''fieldsTotal''
     = Some (PInt 17)
   \<and> consolidated_item (consolidate_customer_data all_failed_results) ''fieldsExtracted''
       = Some (PInt 3)
   \<and> consolidated_item (consolidate_customer_data all_failed_results) ''confidenceScore''
       = Some (PFloat (2483602735682259 / 2 ^ 47))
   \<and> consolidated_item (consolidate_customer_data all_failed_results) ''confidenceScore''
       \<noteq> Some (PFloat 0)
   \<and> consolidated_item (consolidate_customer_data all_failed_results) ''confidenceScore''
       \<noteq> Some (PInt 0)"
proof -
  have "\<forall>r \<in> snd ` set all_failed_results. \<not> success r"
    by (simp add: all_failed_results_def failed_result_def empty_result_def)
  from consolidate_all_failed[OF this] show ?thesis
    by (simp add: finish_init_score consolidated_item_def)
qed

text \<open>The address fields of the consolidated dict.\<close>

lemma successful_data_Inr:
  "successful_data ocr_results k = Inr d \<Longrightarrow> d = source_data ocr_results k"
  by (auto simp: successful_data_def source_data_def split: option.splits if_splits)

lemma successful_data_cases:
  "(\<exists>e. successful_data ocr_results k = Inl e)
   \<or> successful_data ocr_results k = Inr (source_data ocr_results k)"
  by (auto simp: successful_data_def source_data_def split: option.splits if_splits)

lemma dict_item_finish:
  assumes "k \<notin> {''fieldsTotal'', ''fieldsExtracted'', ''confidenceScore'', ''needsReview''}"
  shows "dict_item (finish_consolidated c) k = dict_item c k"
  using assms by (simp add: finish_consolidated_def Let_def dict_item_dict_set)

lemma dict_item_init: "k \<in> set address_keys \<Longrightarrow> dict_item consolidated_init k = PNone"
  by (auto simp: address_keys_def consolidated_init_def dict_item_def)

lemma dict_item_cnpj_update:
  "k \<in> set address_keys \<Longrightarrow>
   dict_item (dict_update c (cnpj_update d)) k = of_opt (parsed_get d k)"
  by (auto simp: address_keys_def cnpj_update_def dict_update_def dict_item_dict_set)

lemma dict_item_rg_update:
  "k \<in> set address_keys \<Longrightarrow> dict_item (dict_update c (rg_update d)) k = dict_item c k"
  by (auto simp: address_keys_def rg_update_def dict_update_def dict_item_dict_set)

lemma dict_item_address_update:
  "k \<in> set address_keys \<Longrightarrow>
   dict_item (dict_update c (address_update d)) k = of_opt (parsed_get d k)"
  by (auto simp: address_keys_def address_update_def dict_update_def dict_item_dict_set)

lemma address_keys_not_metadata:
  "k \<in> set address_keys \<Longrightarrow>
   k \<notin> {''fieldsTotal'', ''fieldsExtracted'', ''confidenceScore'', ''needsReview''}"
  by (auto simp: address_keys_def)

lemma truthy_of_opt: "truthy (of_opt v) = py_truthy v"
  by (simp add: of_opt_def py_truthy_def split: option.splits)

lemma endereco_key: "''endereco'' \<in> set address_keys"
  by (simp add: address_keys_def)

text \<open>
  Claim C6, as stated: the address result's block replaces the address fields when the
  business registration is absent or any of its address sub-fields is empty. It fails
  when the business registration gives the street but no postal code: the address result
  is not used, and the postal code stays null.
\<close>

theorem C6_counterexample:
  "consolidated_item (consolidate_customer_data partial_cnpj_results) ''cep'' = Some PNone
   \<and> consolidated_item (consolidate_customer_data partial_cnpj_results) ''endereco''
       = Some (PStr ''Rua A'')"
proof -
  define c where "c = dict_update consolidated_init
       (cnpj_update (Fields [(''endereco'', Some ''Rua A''), (''cep'', None)]))"
  have t: "truthy (dict_item c ''endereco'')"
    unfolding c_def by code_simp
  have r: "consolidate_customer_data partial_cnpj_results = Inr (finish_consolidated c)"
    using t
    by (simp add: consolidate_customer_data_def successful_data_def partial_cnpj_results_def
        success_result_def empty_result_def c_def)
  have i: "dict_item c ''cep'' = PNone" "dict_item c ''endereco'' = PStr ''Rua A''"
    unfolding c_def by code_simp+
  show ?thesis
    unfolding r using i by (simp add: consolidated_item_def dict_item_finish)
qed

text \<open>
  Claim C6, amended. The address fields come from the business registration when it is
  present and successful. The address result, when present and successful, replaces them
  exactly when the street (\<^verbatim>\<open>endereco\<close>) obtained so far is null or empty, that is when
  the business registration is absent, failed or has no street; it then replaces all
  seven address fields as one block, also with its own nulls, and no field is spliced in
  one by one.
\<close>

theorem C6_address_block:
  assumes "consolidate_customer_data ocr_results = Inr c" and "k \<in> set address_keys"
  shows "dict_item c k =
           (if source_data ocr_results ''address'' \<noteq> None
               \<and> \<not> py_truthy (source_field ocr_results ''cnpj'' ''endereco'')
            then of_opt (source_field ocr_results ''address'' k)
            else of_opt (source_field ocr_results ''cnpj'' k))"
proof -
  from assms(1) have 1: "successful_data ocr_results ''cnpj'' = Inr (source_data ocr_results ''cnpj'')"
    using successful_data_cases[of ocr_results "''cnpj''"]
    by (auto simp: consolidate_customer_data_def)
  from assms(1) 1 have 2: "successful_data ocr_results ''rg'' = Inr (source_data ocr_results ''rg'')"
    using successful_data_cases[of ocr_results "''rg''"]
    by (auto simp: consolidate_customer_data_def Let_def)
  from assms(1) 1 2 have 3: "successful_data ocr_results ''address'' = Inr (source_data ocr_results ''address'')"
    using successful_data_cases[of ocr_results "''address''"]
    by (auto simp: consolidate_customer_data_def Let_def)
  define c1 where "c1 = (case source_data ocr_results ''cnpj'' of None \<Rightarrow> consolidated_init
             | Some cnpj_data \<Rightarrow> dict_update consolidated_init (cnpj_update cnpj_data))"
  define c2 where "c2 = (case source_data ocr_results ''rg'' of None \<Rightarrow> c1
             | Some rg_data \<Rightarrow> dict_update c1 (rg_update rg_data))"
  define c3 where "c3 = (case source_data ocr_results ''address'' of None \<Rightarrow> c2
             | Some addr_data \<Rightarrow>
                 (if \<not> truthy (dict_item c2 ''endereco'')
                  then dict_update c2 (address_update addr_data)
                  else c2))"
  have c: "c = finish_consolidated c3"
    using assms(1) unfolding consolidate_customer_data_def 1 2 3 c1_def c2_def c3_def
    by (simp add: Let_def)
  have i1: "\<And>k. k \<in> set address_keys \<Longrightarrow> dict_item c1 k = of_opt (source_field ocr_results ''cnpj'' k)"
    by (auto simp: c1_def source_field_def dict_item_init dict_item_cnpj_update of_opt_def
             split: option.splits)
  have i2: "\<And>k. k \<in> set address_keys \<Longrightarrow> dict_item c2 k = dict_item c1 k"
    by (auto simp: c2_def dict_item_rg_update split: option.splits)
  have e: "truthy (dict_item c2 ''endereco'') = py_truthy (source_field ocr_results ''cnpj'' ''endereco'')"
    using i1[OF endereco_key] i2[OF endereco_key] by (simp add: truthy_of_opt)
  have i3: "dict_item c3 k =
           (if source_data ocr_results ''address'' \<noteq> None
               \<and> \<not> py_truthy (source_field ocr_results ''cnpj'' ''endereco'')
            then of_opt (source_field ocr_results ''address'' k)
            else of_opt (source_field ocr_results ''cnpj'' k))"
    using assms(2) i1[OF assms(2)] i2[OF assms(2)]
    by (auto simp: c3_def e source_field_def dict_item_address_update split: option.splits)
  show ?thesis
    unfolding c using i3 dict_item_finish[OF address_keys_not_metadata[OF assms(2)]] by simp
qed


theorem C6_address_block_witness:
  "consolidate_customer_data no_street_results
     = Inr (projr (consolidate_customer_data no_street_results))
   \<and> ''cep'' \<in> set address_keys
   \<and> dict_item (projr (consolidate_customer_data no_street_results)) ''cep'' = PNone"
proof -
  have s: "\<And>k. successful_data no_street_results k = Inr (source_data no_street_results k)"
    by (simp add: successful_data_def source_data_def no_street_results_def success_result_def
        empty_result_def)
  have h: "consolidate_customer_data no_street_results
             = Inr (projr (consolidate_customer_data no_street_results))"
    by (simp add: consolidate_customer_data_def s Let_def)
  have k: "''cep'' \<in> set address_keys" by (simp add: address_keys_def)
  have a: "source_data no_street_results ''address'' \<noteq> None"
    by (simp add: source_data_def no_street_results_def success_result_def empty_result_def)
  have e: "\<not> py_truthy (source_field no_street_results ''cnpj'' ''endereco'')"
    by code_simp
  have v: "source_field no_street_results ''address'' ''cep'' = None"
    by code_simp
  show ?thesis
    using C6_address_block[OF h k] h k a e v by (simp add: of_opt_def)
qed

section \<open>The response parser\<close>

text \<open>When the text looks like one JSON object and \<^verbatim>\<open>json.loads\<close> raises on it, the
  extraction of JSON ends there and the parser goes to the pattern fallback.\<close>

lemma direct_json_failure:
  assumes "startswith ''{'' (py_strip text)" and "endswith ''}'' (py_strip text)"
    and "json_loads L (py_strip text) = None"
  shows "extract_json_from_text L text = None"
    and "parse_extracted_data L text document_type = regex_fallback L text document_type"
  using assms by (simp_all add: extract_json_from_text_def parse_extracted_data_def)

text \<open>
  Claim C5 says that when the trimmed text begins and ends with a brace but does not
  decode, the embedded-JSON strategy is still tried before the pattern fallback. The code
  does not do so: the failed decoding raises inside the outer \<^verbatim>\<open>try\<close>, whose handler
  returns \<^verbatim>\<open>None\<close>, and the loops over the patterns are skipped. On the answer
  \<^const>\<open>two_objects\<close> those loops would return the first object; the parser instead
  returns the all-null record of the pattern fallback.
\<close>

theorem C5_direct_failure_skips_embedded:
  "startswith ''{'' (py_strip two_objects) \<and> endswith ''}'' (py_strip two_objects)
   \<and> json_loads two_objects_lib (py_strip two_objects) = None
   \<and> try_patterns two_objects_lib json_patterns two_objects
       = Some [(''empresa'', JStr ''ACME LTDA'')]
   \<and> extract_json_from_text two_objects_lib two_objects = None
   \<and> parse_extracted_data two_objects_lib two_objects ''cnpj''
       = [(''empresa'', None), (''cnpj'', None), (''nome_comprovante'', None)]"
  by code_simp

section \<open>The pattern fallback for the business registration\<close>

lemma rec_get_dict_set:
  "rec_get (dict_set d k v) k' = (if k' = k then v else rec_get d k')"
  by (induction d) (auto simp: rec_get_def)

lemma digits_loop_other:
  "k' \<noteq> field \<Longrightarrow> rec_get (digits_loop L text field n ps result) k' = rec_get result k'"
  by (induction ps) (auto simp: rec_get_dict_set split: option.splits)

lemma line_loop_other:
  "k' \<noteq> ''nome_comprovante'' \<Longrightarrow> rec_get (line_loop L ls result) k' = rec_get result k'"
  by (induction ls) (auto simp: rec_get_dict_set Let_def)

lemma empresa_loop_inv:
  assumes "rec_get result ''empresa'' = None" and "rec_get result ''nome_comprovante'' = None"
  shows "(rec_get (empresa_loop L text ps result) ''empresa'' = None
          \<and> rec_get (empresa_loop L text ps result) ''nome_comprovante'' = None)
       \<or> (\<exists>e. length e \<ge> 5
              \<and> rec_get (empresa_loop L text ps result) ''empresa'' = Some e
              \<and> rec_get (empresa_loop L text ps result) ''nome_comprovante'' = Some e)"
  using assms
  by (induction ps) (auto simp: rec_get_dict_set Let_def py_truthy_def split: option.splits)

text \<open>
  Claim C10. In the pattern fallback for cnpj, for every text (and whatever the regular
  expressions match), when the returned record has a company name under
  \<^verbatim>\<open>empresa\<close>, the field \<^verbatim>\<open>nome_comprovante\<close> holds that same name: it is never null
  beside a non-null \<^verbatim>\<open>empresa\<close>.
\<close>

theorem C10_empresa_implies_nome_comprovante:
  assumes "rec_get (extract_cnpj_fields L text) ''empresa'' = Some e"
  shows "rec_get (extract_cnpj_fields L text) ''nome_comprovante'' = Some e"
proof -
  define r0 :: parsed_record where
    "r0 = [(''empresa'', None), (''cnpj'', None), (''nome_comprovante'', None)]"
  define r1 where "r1 = digits_loop L text ''cnpj'' 14 cnpj_patterns r0"
  define r2 where "r2 = empresa_loop L text empresa_patterns r1"
  have x: "extract_cnpj_fields L text =
        (if \<not> py_truthy (rec_get r2 ''nome_comprovante'')
         then line_loop L (split_on (CHR 0x0A) text) r2 else r2)"
    by (simp add: extract_cnpj_fields_def Let_def r0_def r1_def r2_def)
  have "rec_get r0 ''empresa'' = None" "rec_get r0 ''nome_comprovante'' = None"
    by (simp_all add: r0_def rec_get_def)
  then have "rec_get r1 ''empresa'' = None" "rec_get r1 ''nome_comprovante'' = None"
    by (simp_all add: r1_def digits_loop_other)
  from empresa_loop_inv[OF this, of L "text" empresa_patterns]
  have inv: "(rec_get r2 ''empresa'' = None \<and> rec_get r2 ''nome_comprovante'' = None)
       \<or> (\<exists>e. length e \<ge> 5 \<and> rec_get r2 ''empresa'' = Some e
                \<and> rec_get r2 ''nome_comprovante'' = Some e)"
    by (simp add: r2_def)
  have emp: "rec_get (extract_cnpj_fields L text) ''empresa'' = rec_get r2 ''empresa''"
    unfolding x by (simp add: line_loop_other)
  with assms have "rec_get r2 ''empresa'' = Some e" by simp
  with inv have e5: "length e \<ge> 5" and n: "rec_get r2 ''nome_comprovante'' = Some e" by auto
  then have "py_truthy (rec_get r2 ''nome_comprovante'')"
    by (auto simp: py_truthy_def)
  then show ?thesis unfolding x using n by simp
qed

theorem C10_empresa_implies_nome_comprovante_witness:
  "rec_get (extract_cnpj_fields acme_lib acme_text) ''empresa'' = Some ''ACME COMERCIO LTDA''
   \<and> rec_get (extract_cnpj_fields acme_lib acme_text) ''nome_comprovante''
       = Some ''ACME COMERCIO LTDA''"
proof -
  have h: "rec_get (extract_cnpj_fields acme_lib acme_text) ''empresa'' = Some ''ACME COMERCIO LTDA''"
    by code_simp
  show ?thesis using C10_empresa_implies_nome_comprovante[OF h] h by simp
qed

section \<open>Document types outside the tables\<close>

text \<open>
  Claim C7, as stated: for a document type outside the enumeration the per-document
  operations fail with a \<^verbatim>\<open>SchemaNotFound\<close> error rather than going on with a default
  prompt or schema. The code has no such error: for the type "passport" the prompt is the
  one of cnpj and the document is processed to a result with \<^verbatim>\<open>success\<close> true and no
  error.
\<close>

theorem C7_counterexample:
  "get_document_prompt ''passport'' = Prompt_cnpj
   \<and> success (process_document no_match_lib (\<lambda>p img. Inr ''???'') ''doc.jpg'' ''passport'')
   \<and> error (process_document no_match_lib (\<lambda>p img. Inr ''???'') ''doc.jpg'' ''passport'') = None
   \<and> parsed_data (process_document no_match_lib (\<lambda>p img. Inr ''???'') ''doc.jpg'' ''passport'')
       = Some (Fields [])"
  by code_simp

text \<open>
  Claim C7, amended. For every document type outside rg, cnpj and address no error is
  raised: the prompt lookup falls back to the prompt of cnpj, the pattern fallback returns
  an empty record, and the quality evaluator returns the result unchanged. So for a type
  that is not "facade" either, an answer of the model gives a result with \<^verbatim>\<open>success\<close>
  true, no error and no quality metrics, holding whatever the parser made of the answer.
\<close>

theorem C7_unknown_kind:
  assumes "document_type \<notin> {''rg'', ''cnpj'', ''address''}"
  shows "get_document_prompt document_type = Prompt_cnpj
         \<and> extract_with_focused_regex L answer document_type = []
         \<and> validate_ocr_result result document_type = result
         \<and> (document_type \<noteq> ''facade''
              \<longrightarrow> ask Prompt_cnpj image_path = Inr answer
              \<longrightarrow> success (process_document L ask image_path document_type)
                  \<and> error (process_document L ask image_path document_type) = None
                  \<and> quality_metrics (process_document L ask image_path document_type) = None
                  \<and> parsed_data (process_document L ask image_path document_type)
                      = Some (Fields (parse_extracted_data L answer document_type)))"
proof -
  have p: "get_document_prompt document_type = Prompt_cnpj"
    using assms by (simp add: get_document_prompt_def prompts_def)
  have x: "extract_with_focused_regex L answer document_type = []"
    using assms by (simp add: extract_with_focused_regex_def)
  have q: "quality_checks document_type = None"
    using assms by (simp add: quality_checks_def)
  have v: "\<And>r. validate_ocr_result r document_type = r"
    by (simp add: validate_ocr_result_def q)
  show ?thesis
    using p x v by (simp add: process_document_def empty_result_def)
qed

theorem C7_unknown_kind_witness:
  "''passport'' \<notin> {''rg'', ''cnpj'', ''address''}
   \<and> get_document_prompt ''passport'' = Prompt_cnpj
   \<and> extract_with_focused_regex no_match_lib ''???'' ''passport'' = []
   \<and> ''passport'' \<noteq> ''facade''
   \<and> success (process_document no_match_lib (\<lambda>p img. Inr ''???'') ''doc.jpg'' ''passport'')
   \<and> error (process_document no_match_lib (\<lambda>p img. Inr ''???'') ''doc.jpg'' ''passport'') = None"
proof -
  have h: "''passport'' \<notin> {''rg'', ''cnpj'', ''address''}" by simp
  have f: "''passport'' \<noteq> ''facade''" by simp
  show ?thesis
    using C7_unknown_kind[OF h, where L=no_match_lib and answer="''???''"
        and ask="\<lambda>p img. Inr ''???''" and image_path="''doc.jpg''"] h f
    by simp
qed

section \<open>Post-processing of the parsed values\<close>














end
